theory Spec2Isabelle
  imports Main "HOL-Library.Word"
begin

unbundle bit_operations_syntax

section \<open>The credential store (package config)\<close>

subsection \<open>Data\<close>

text \<open>
  Go's \<^verbatim>\<open>string\<close> and \<^verbatim>\<open>[]byte\<close> hold the same thing, a sequence of bytes, and the
  conversions \<^verbatim>\<open>[]byte(s)\<close> and \<^verbatim>\<open>string(b)\<close> copy it unchanged. Both are modelled as
  \<^typ>\<open>string\<close>, one \<^typ>\<open>char\<close> per byte, so a string need not be UTF-8.
\<close>

type_synonym bytes = string

text \<open>
  \<^verbatim>\<open>RuntimeConfig\<close> and \<^verbatim>\<open>ConfigFile\<close> both have a field \<^verbatim>\<open>DeviceUUID\<close>; the one of
  \<^verbatim>\<open>RuntimeConfig\<close> is \<open>RuntimeDeviceUUID\<close> here.
\<close>

record RuntimeConfig =
  AuthMethod :: string
  DoNotPersistConfig :: bool
  ConfigDirectory :: string
  DisableSSHAgent :: bool
  WebsocketDisabled :: bool
  RuntimeDeviceUUID :: string
  User :: string
  Password :: string
  Pin :: string
  UseMemguard :: bool
  SSHAgentSocketPath :: string
  GoldwardenSocketPath :: string
  DaemonAuthToken :: string

record ConfigFile =
  IdentityUrl :: string
  ApiUrl :: string
  NotificationsUrl :: string
  VaultUrl :: string
  EncryptedClientID :: string
  EncryptedClientSecret :: string
  DeviceUUID :: string
  ConfigKeyHash :: string
  EncryptedToken :: string
  EncryptedUserSymmetricKey :: string
  EncryptedMasterPasswordHash :: string
  EncryptedMasterKey :: string
  RuntimeConfig :: RuntimeConfig

record LoginToken =
  AccessToken :: string
  ExpiresIn :: int
  TokenType :: string
  RefreshToken :: string
  Key :: string

text \<open>
  \<^verbatim>\<open>Config\<close>: the field \<open>key\<close> holds the contents of the buffer \<^verbatim>\<open>*c.key\<close>; \<open>mu\<close> says
  whether the mutex \<^verbatim>\<open>c.mu\<close> is held.
\<close>

record Config =
  useMemguard :: bool
  key :: bytes
  ConfigFile :: ConfigFile
  mu :: bool

datatype error =
  ConfigLocked
  | CorruptInputError
  | InvalidKeySize
  | EncryptError
  | DecryptError
  | MarshalError
  | UnmarshalError
  | WriteError
  | CouldNotSync
  | KeyringError
  | MsgpackError

text \<open>
  A call of the source either returns, waits for ever on a mutex that is never released,
  or ends the process with a runtime error.
\<close>

datatype 'a outcome = Returns 'a | Blocks | Fatal

subsection \<open>The libraries the store calls\<close>

text \<open>
  The store is written against libraries that are not part of the repository: argon2,
  SHA3, tink's ChaCha20-Poly1305, base64, JSON and the file system. What they compute is a
  parameter of the model.
  \<^item> \<open>argon2_Key password salt\<close> is \<^verbatim>\<open>argon2.Key(password, salt, KDFIterations, KDFMemory,
    KDFThreads, 32)\<close>;
  \<^item> \<open>sha3_Sum256\<close> is \<^verbatim>\<open>sha3.Sum256\<close>;
  \<^item> \<open>aead_Encrypt k r pt\<close> is \<^verbatim>\<open>ca.Encrypt(pt, []byte{})\<close> for the cipher \<^verbatim>\<open>ca\<close> made from
    the key \<open>k\<close>, where \<open>r\<close> is the randomness the call draws for its nonce;
    \<open>aead_Decrypt k ct\<close> is \<^verbatim>\<open>ca.Decrypt(ct, []byte{})\<close>; \<open>None\<close> is an error;
  \<^item> \<open>b64_EncodeToString\<close> and \<open>b64_DecodeString\<close> are those of \<^verbatim>\<open>base64.StdEncoding\<close>;
  \<^item> \<open>json_Marshal\<close> and \<open>json_Unmarshal\<close> are \<^verbatim>\<open>json.Marshal\<close> and \<^verbatim>\<open>json.Unmarshal\<close> at
    the type \<^verbatim>\<open>LoginToken\<close>;
  \<^item> \<open>persist cf d\<close> is what the calls of \<^verbatim>\<open>json\<close> and \<^verbatim>\<open>os\<close> in lines 606 to 631 of
    \<^verbatim>\<open>WriteConfig\<close> do to the file system \<open>d\<close> with the record \<open>cf\<close>: serialise it, remove
    the old file, make the directory, create and write the file. It gives the error, if
    any, and the file system afterwards. The slice expression of line 613, which is Go's
    own and can panic, is not part of it.
\<close>

record 'd primitives =
  argon2_Key :: "bytes \<Rightarrow> bytes \<Rightarrow> bytes"
  sha3_Sum256 :: "bytes \<Rightarrow> bytes"
  aead_Encrypt :: "bytes \<Rightarrow> bytes \<Rightarrow> bytes \<Rightarrow> bytes option"
  aead_Decrypt :: "bytes \<Rightarrow> bytes \<Rightarrow> bytes option"
  b64_EncodeToString :: "bytes \<Rightarrow> string"
  b64_DecodeString :: "string \<Rightarrow> bytes option"
  json_Marshal :: "LoginToken \<Rightarrow> string option"
  json_Unmarshal :: "string \<Rightarrow> LoginToken option"
  persist :: "ConfigFile \<Rightarrow> 'd \<Rightarrow> error option \<times> 'd"

text \<open>\<^verbatim>\<open>hex.EncodeToString\<close>: two lower-case digits for each byte.\<close>

definition hexdigit :: "nat \<Rightarrow> char" where
  "hexdigit n = ''0123456789abcdef'' ! (n mod 16)"

definition hex_EncodeToString :: "bytes \<Rightarrow> string" where
  "hex_EncodeToString bs =
     concat (map (\<lambda>c. [hexdigit ((of_char c :: nat) div 16), hexdigit ((of_char c :: nat) mod 16)]) bs)"

text \<open>\<^verbatim>\<open>subtle.ConstantTimeCompare\<close> is 1 when the two slices are equal and 0 otherwise.\<close>

definition ConstantTimeCompare :: "bytes \<Rightarrow> bytes \<Rightarrow> int" where
  "ConstantTimeCompare x y = (if x = y then 1 else 0)"

text \<open>
  \<^verbatim>\<open>subtle.NewChaCha20Poly1305\<close> refuses a key that is not 32 bytes long; otherwise the
  cipher it returns is determined by the key.
\<close>

definition NewChaCha20Poly1305 :: "bytes \<Rightarrow> error + bytes" where
  "NewChaCha20Poly1305 k = (if length k \<noteq> 32 then Inl InvalidKeySize else Inr k)"

subsection \<open>The key buffer\<close>

text \<open>
  Modelled from the spec: the type \<^verbatim>\<open>LockedBuffer\<close> with \<^verbatim>\<open>NewBuffer\<close>, \<^verbatim>\<open>NewBufferFromBytes\<close>,
  \<^verbatim>\<open>Bytes\<close> and \<^verbatim>\<open>Wipe\<close> is declared outside the files at hand. The spec calls it a
  fixed-size byte buffer holding key material, zeroable on demand: a new buffer of
  \<open>n\<close> bytes is all zero, a buffer made from bytes holds those bytes, and wiping
  overwrites the contents with zeros.
\<close>

definition NewBuffer :: "nat \<Rightarrow> bool \<Rightarrow> bytes" where
  "NewBuffer n memguard = replicate n (CHR 0x00)"

definition NewBufferFromBytes :: "bytes \<Rightarrow> bool \<Rightarrow> bytes" where
  "NewBufferFromBytes b memguard = b"

definition Bytes :: "bytes \<Rightarrow> bytes" where
  "Bytes b = b"

definition Wipe :: "bytes \<Rightarrow> bytes" where
  "Wipe b = replicate (length b) (CHR 0x00)"

subsection \<open>Lock state\<close>

definition HasPin :: "Config \<Rightarrow> bool" where
  "HasPin c = (ConfigKeyHash (ConfigFile c) \<noteq> '''')"

text \<open>\<^verbatim>\<open>make([]byte, 32)\<close> is 32 zero bytes.\<close>

definition IsLocked :: "Config \<Rightarrow> bool" where
  "IsLocked c = (Bytes (key c) = replicate 32 (CHR 0x00) \<and> HasPin c)"

definition IsLoggedIn :: "Config \<Rightarrow> bool" where
  "IsLoggedIn c = (EncryptedMasterPasswordHash (ConfigFile c) \<noteq> '''')"

text \<open>
  \<^verbatim>\<open>DefaultConfig\<close>; the fresh device identifier \<^verbatim>\<open>uuid.NewUUID()\<close> is the argument
  \<open>deviceUUID\<close>.
\<close>

definition emptyRuntimeConfig :: RuntimeConfig where
  "emptyRuntimeConfig =
     \<lparr>AuthMethod = '''', DoNotPersistConfig = False, ConfigDirectory = '''',
      DisableSSHAgent = False, WebsocketDisabled = False, RuntimeDeviceUUID = '''',
      User = '''', Password = '''', Pin = '''', UseMemguard = False,
      SSHAgentSocketPath = '''', GoldwardenSocketPath = '''', DaemonAuthToken = ''''\<rparr>"

definition DefaultConfig :: "bool \<Rightarrow> string \<Rightarrow> Config" where
  "DefaultConfig memguard deviceUUID =
     \<lparr>useMemguard = memguard,
      key = NewBuffer 32 memguard,
      ConfigFile =
        \<lparr>IdentityUrl = ''https://identity.bitwarden.com'',
         ApiUrl = ''https://api.bitwarden.com'',
         NotificationsUrl = ''https://notifications.bitwarden.com'',
         VaultUrl = ''https://vault.bitwarden.com'',
         EncryptedClientID = '''',
         EncryptedClientSecret = '''',
         DeviceUUID = deviceUUID,
         ConfigKeyHash = '''',
         EncryptedToken = '''',
         EncryptedUserSymmetricKey = '''',
         EncryptedMasterPasswordHash = '''',
         EncryptedMasterKey = '''',
         RuntimeConfig = emptyRuntimeConfig\<rparr>,
      mu = False\<rparr>"

subsection \<open>Envelope encryption\<close>

definition encryptString :: "'d primitives \<Rightarrow> bytes \<Rightarrow> string \<Rightarrow> Config \<Rightarrow> error + string" where
  "encryptString P r data c =
     (if IsLocked c then Inl ConfigLocked
      else case NewChaCha20Poly1305 (Bytes (key c)) of
        Inl e \<Rightarrow> Inl e
      | Inr ca \<Rightarrow>
          (case aead_Encrypt P ca r data of
             None \<Rightarrow> Inl EncryptError
           | Some result \<Rightarrow> Inr (b64_EncodeToString P result)))"

definition decryptString :: "'d primitives \<Rightarrow> string \<Rightarrow> Config \<Rightarrow> error + string" where
  "decryptString P data c =
     (if IsLocked c then Inl ConfigLocked
      else case b64_DecodeString P data of
        None \<Rightarrow> Inl CorruptInputError
      | Some decoded \<Rightarrow>
          (case NewChaCha20Poly1305 (Bytes (key c)) of
             Inl e \<Rightarrow> Inl e
           | Inr ca \<Rightarrow>
               (case aead_Decrypt P ca decoded of
                  None \<Rightarrow> Inl DecryptError
                | Some result \<Rightarrow> Inr result)))"

subsection \<open>What lies around the store\<close>

text \<open>
  The methods of \<^verbatim>\<open>Config\<close> act on the store itself and on three things outside it: the
  file system, through \<^verbatim>\<open>WriteConfig\<close>; the pin cache \<^verbatim>\<open>pincache\<close>; and the desktop
  notifications of \<^verbatim>\<open>notify.Notify\<close>, of which the titles are kept, the latest last.
\<close>

text \<open>
  Modelled from the spec: \<^verbatim>\<open>pincache.SetPin\<close> is declared outside the files at hand; the spec
  has it cache the pin in a short-lived side cache for silent re-unlock. The field
  \<open>pincache\<close> is the pin that the cache holds.
\<close>

record 'd agent =
  config :: Config
  disk :: 'd
  pincache :: "bytes option"
  notifications :: "string list"

text \<open>
  \<^verbatim>\<open>WriteConfig\<close> takes the mutex and releases it on return. At line 613 it cuts the file
  name off the path, \<^verbatim>\<open>ConfigDirectory[:len(ConfigDirectory)-len("/goldwarden.json")]\<close>: when
  the path is shorter than the 16 bytes of that name, the bound is negative and the
  expression panics. Nothing recovers the panic, so the process dies.
\<close>

definition WriteConfig :: "'d primitives \<Rightarrow> 'd agent \<Rightarrow> (error option \<times> 'd agent) outcome" where
  "WriteConfig P a =
     (if DoNotPersistConfig (RuntimeConfig (ConfigFile (config a))) then Returns (None, a)
      else if mu (config a) then Blocks
      else if length (ConfigDirectory (RuntimeConfig (ConfigFile (config a))))
                < length ''/goldwarden.json'' then Fatal
      else case persist P (ConfigFile (config a)) (disk a) of
        (err, d) \<Rightarrow> Returns (err, a\<lparr>disk := d\<rparr>))"

subsection \<open>Unlock, lock, purge\<close>

text \<open>
  \<^verbatim>\<open>Unlock\<close>, \<^verbatim>\<open>Lock\<close> and \<^verbatim>\<open>Purge\<close> take the mutex on entry and release it on return
  (\<^verbatim>\<open>defer c.mu.Unlock()\<close>): they wait for ever when it is held, and leave it free.
\<close>

definition Unlock :: "'d primitives \<Rightarrow> string \<Rightarrow> 'd agent \<Rightarrow> (bool \<times> 'd agent) outcome" where
  "Unlock P password a =
     (let c = config a in
      if mu c then Blocks
      else if \<not> IsLocked c then Returns (True, a)
      else
        let k = argon2_Key P password (DeviceUUID (ConfigFile c));
            keyHash = sha3_Sum256 P k;
            configKeyHash = hex_EncodeToString keyHash
        in if ConstantTimeCompare configKeyHash (ConfigKeyHash (ConfigFile c)) \<noteq> 1
           then Returns (False, a)
           else Returns (True,
                  a\<lparr>config := c\<lparr>key := NewBufferFromBytes k (useMemguard c)\<rparr>,
                    notifications := notifications a @ [''Vault Unlocked''],
                    pincache := Some password\<rparr>))"

definition VerifyPin :: "'d primitives \<Rightarrow> string \<Rightarrow> Config \<Rightarrow> bool" where
  "VerifyPin P password c =
     (let k = argon2_Key P password (DeviceUUID (ConfigFile c));
          keyHash = sha3_Sum256 P k;
          configKeyHash = hex_EncodeToString keyHash
      in if ConstantTimeCompare configKeyHash (ConfigKeyHash (ConfigFile c)) \<noteq> 1
         then False else True)"

definition Lock :: "'d agent \<Rightarrow> 'd agent outcome" where
  "Lock a =
     (let c = config a in
      if mu c then Blocks
      else if IsLocked c then Returns a
      else Returns (a\<lparr>config := c\<lparr>key := Wipe (key c)\<rparr>,
                      notifications := notifications a @ [''Vault Locked'']\<rparr>))"

definition Purge :: "'d agent \<Rightarrow> 'd agent outcome" where
  "Purge a =
     (let c = config a in
      if mu c then Blocks
      else Returns (a\<lparr>config :=
             c\<lparr>ConfigFile := (ConfigFile c)
                   \<lparr>EncryptedMasterPasswordHash := '''',
                    EncryptedToken := '''',
                    EncryptedUserSymmetricKey := '''',
                    EncryptedClientID := '''',
                    EncryptedClientSecret := '''',
                    ConfigKeyHash := '''',
                    EncryptedMasterKey := ''''\<rparr>,
               key := NewBuffer 32 (useMemguard c)\<rparr>\<rparr>))"

subsection \<open>Changing the pin\<close>

text \<open>
  \<^verbatim>\<open>UpdatePin\<close> has the same block six times, once for each encrypted field
  (lines 320 to 361):
  \<^verbatim>\<open>
  if err1 == nil {
      c.ConfigFile.EncryptedToken, err1 = c.encryptString(plaintextToken)
      if err1 != nil { log.Error(...); return }
  }
  \<close>
  \<open>reencrypt\<close> is that block for the field that \<open>upd\<close> writes: \<open>Inr\<close> when control goes on to
  the next block, \<open>Inl\<close> when the method returns there. The assignment stores what
  \<^verbatim>\<open>encryptString\<close> returned also when it failed, and that is the empty string.
\<close>

definition reencrypt ::
  "'d primitives \<Rightarrow> bytes \<Rightarrow> error + string \<Rightarrow>
   ((string \<Rightarrow> string) \<Rightarrow> ConfigFile \<Rightarrow> ConfigFile) \<Rightarrow> Config \<Rightarrow> Config + Config" where
  "reencrypt P r plaintext upd c =
     (case plaintext of
        Inl err \<Rightarrow> Inr c
      | Inr pt \<Rightarrow>
          (case encryptString P r pt c of
             Inl err \<Rightarrow> Inl (c\<lparr>ConfigFile := upd (\<lambda>_. '''') (ConfigFile c)\<rparr>)
           | Inr ct \<Rightarrow> Inr (c\<lparr>ConfigFile := upd (\<lambda>_. ct) (ConfigFile c)\<rparr>)))"

definition andThen :: "Config + Config \<Rightarrow> (Config \<Rightarrow> Config + Config) \<Rightarrow> Config + Config" where
  "andThen x f = (case x of Inl c \<Rightarrow> Inl c | Inr c \<Rightarrow> f c)"

text \<open>
  \<open>r 1\<close>, ..., \<open>r 6\<close> is the randomness of the six encryptions. The method takes the mutex
  and releases it at line 362 only: a return from one of the six blocks leaves it held.
\<close>

definition UpdatePin ::
  "'d primitives \<Rightarrow> (nat \<Rightarrow> bytes) \<Rightarrow> string \<Rightarrow> bool \<Rightarrow> 'd agent \<Rightarrow> 'd agent outcome" where
  "UpdatePin P r password write a =
     (if mu (config a) then Blocks
      else
        let c0 = (config a)\<lparr>mu := True\<rparr>;
            newKey = argon2_Key P password (DeviceUUID (ConfigFile c0));
            keyHash = sha3_Sum256 P newKey;
            configKeyHash = hex_EncodeToString keyHash;
            c1 = c0\<lparr>ConfigFile := (ConfigFile c0)\<lparr>ConfigKeyHash := configKeyHash\<rparr>\<rparr>;
            plaintextToken = decryptString P (EncryptedToken (ConfigFile c1)) c1;
            plaintextUserSymmetricKey = decryptString P (EncryptedUserSymmetricKey (ConfigFile c1)) c1;
            plaintextEncryptedMasterPasswordHash =
              decryptString P (EncryptedMasterPasswordHash (ConfigFile c1)) c1;
            plaintextMasterKey = decryptString P (EncryptedMasterKey (ConfigFile c1)) c1;
            plaintextClientID = decryptString P (EncryptedClientID (ConfigFile c1)) c1;
            plaintextClientSecret = decryptString P (EncryptedClientSecret (ConfigFile c1)) c1;
            c2 = c1\<lparr>key := NewBufferFromBytes newKey (useMemguard c1)\<rparr>
        in case
             andThen (andThen (andThen (andThen (andThen
               (reencrypt P (r 1) plaintextToken EncryptedToken_update c2)
               (reencrypt P (r 2) plaintextUserSymmetricKey EncryptedUserSymmetricKey_update))
               (reencrypt P (r 3) plaintextEncryptedMasterPasswordHash EncryptedMasterPasswordHash_update))
               (reencrypt P (r 4) plaintextMasterKey EncryptedMasterKey_update))
               (reencrypt P (r 5) plaintextClientID EncryptedClientID_update))
               (reencrypt P (r 6) plaintextClientSecret EncryptedClientSecret_update)
           of
             Inl c \<Rightarrow> Returns (a\<lparr>config := c\<rparr>)
           | Inr c \<Rightarrow>
               let a' = a\<lparr>config := c\<lparr>mu := False\<rparr>\<rparr> in
               if write then
                 (case WriteConfig P a' of
                    Blocks \<Rightarrow> Blocks
                  | Fatal \<Rightarrow> Fatal
                  | Returns (Some err, a'') \<Rightarrow> Returns a''
                  | Returns (None, a'') \<Rightarrow> Returns (a''\<lparr>pincache := Some password\<rparr>))
               else Returns (a'\<lparr>pincache := Some password\<rparr>))"

subsection \<open>The accessors of the secret fields\<close>

definition GetToken :: "'d primitives \<Rightarrow> Config \<Rightarrow> error + LoginToken" where
  "GetToken P c =
     (if IsLocked c then Inl ConfigLocked
      else case decryptString P (EncryptedToken (ConfigFile c)) c of
        Inl err \<Rightarrow> Inl err
      | Inr tokenJson \<Rightarrow>
          (case json_Unmarshal P tokenJson of
             None \<Rightarrow> Inl UnmarshalError
           | Some token \<Rightarrow> Inr token))"

definition SetToken ::
  "'d primitives \<Rightarrow> bytes \<Rightarrow> LoginToken \<Rightarrow> 'd agent \<Rightarrow> (error option \<times> 'd agent) outcome" where
  "SetToken P r token a =
     (let c = config a in
      if IsLocked c then Returns (Some ConfigLocked, a)
      else case json_Marshal P token of
        None \<Rightarrow> Returns (Some MarshalError, a)
      | Some tokenJson \<Rightarrow>
          (case encryptString P r tokenJson c of
             Inl err \<Rightarrow> Returns (Some err, a)
           | Inr encryptedToken \<Rightarrow>
               WriteConfig P
                 (a\<lparr>config := c\<lparr>ConfigFile := (ConfigFile c)\<lparr>EncryptedToken := encryptedToken\<rparr>\<rparr>\<rparr>)))"

definition GetClientID :: "'d primitives \<Rightarrow> Config \<Rightarrow> error + string" where
  "GetClientID P c =
     (if IsLocked c then Inl ConfigLocked
      else if EncryptedClientID (ConfigFile c) = '''' then Inr ''''
      else case decryptString P (EncryptedClientID (ConfigFile c)) c of
        Inl err \<Rightarrow> Inl err
      | Inr decrypted \<Rightarrow> Inr decrypted)"

definition SetClientID ::
  "'d primitives \<Rightarrow> bytes \<Rightarrow> string \<Rightarrow> 'd agent \<Rightarrow> (error option \<times> 'd agent) outcome" where
  "SetClientID P r clientID a =
     (let c = config a in
      if IsLocked c then Returns (Some ConfigLocked, a)
      else if clientID = '''' then
        WriteConfig P (a\<lparr>config := c\<lparr>ConfigFile := (ConfigFile c)\<lparr>EncryptedClientID := ''''\<rparr>\<rparr>\<rparr>)
      else case encryptString P r clientID c of
        Inl err \<Rightarrow> Returns (Some err, a)
      | Inr encryptedClientID \<Rightarrow>
          WriteConfig P
            (a\<lparr>config := c\<lparr>ConfigFile := (ConfigFile c)\<lparr>EncryptedClientID := encryptedClientID\<rparr>\<rparr>\<rparr>))"

definition GetClientSecret :: "'d primitives \<Rightarrow> Config \<Rightarrow> error + string" where
  "GetClientSecret P c =
     (if IsLocked c then Inl ConfigLocked
      else if EncryptedClientSecret (ConfigFile c) = '''' then Inr ''''
      else case decryptString P (EncryptedClientSecret (ConfigFile c)) c of
        Inl err \<Rightarrow> Inl err
      | Inr decrypted \<Rightarrow> Inr decrypted)"

definition SetClientSecret ::
  "'d primitives \<Rightarrow> bytes \<Rightarrow> string \<Rightarrow> 'd agent \<Rightarrow> (error option \<times> 'd agent) outcome" where
  "SetClientSecret P r clientSecret a =
     (let c = config a in
      if IsLocked c then Returns (Some ConfigLocked, a)
      else if clientSecret = '''' then
        WriteConfig P (a\<lparr>config := c\<lparr>ConfigFile := (ConfigFile c)\<lparr>EncryptedClientSecret := ''''\<rparr>\<rparr>\<rparr>)
      else case encryptString P r clientSecret c of
        Inl err \<Rightarrow> Returns (Some err, a)
      | Inr encryptedClientSecret \<Rightarrow>
          WriteConfig P
            (a\<lparr>config := c\<lparr>ConfigFile :=
               (ConfigFile c)\<lparr>EncryptedClientSecret := encryptedClientSecret\<rparr>\<rparr>\<rparr>))"

definition GetUserSymmetricKey :: "'d primitives \<Rightarrow> Config \<Rightarrow> error + bytes" where
  "GetUserSymmetricKey P c =
     (if IsLocked c then Inl ConfigLocked
      else case decryptString P (EncryptedUserSymmetricKey (ConfigFile c)) c of
        Inl err \<Rightarrow> Inl err
      | Inr decrypted \<Rightarrow> Inr decrypted)"

definition SetUserSymmetricKey ::
  "'d primitives \<Rightarrow> bytes \<Rightarrow> bytes \<Rightarrow> 'd agent \<Rightarrow> (error option \<times> 'd agent) outcome" where
  "SetUserSymmetricKey P r k a =
     (let c = config a in
      if IsLocked c then Returns (Some ConfigLocked, a)
      else case encryptString P r k c of
        Inl err \<Rightarrow> Returns (Some err, a)
      | Inr encryptedKey \<Rightarrow>
          WriteConfig P
            (a\<lparr>config := c\<lparr>ConfigFile := (ConfigFile c)\<lparr>EncryptedUserSymmetricKey := encryptedKey\<rparr>\<rparr>\<rparr>))"

definition GetMasterPasswordHash :: "'d primitives \<Rightarrow> Config \<Rightarrow> error + bytes" where
  "GetMasterPasswordHash P c =
     (if IsLocked c then Inl ConfigLocked
      else case decryptString P (EncryptedMasterPasswordHash (ConfigFile c)) c of
        Inl err \<Rightarrow> Inl err
      | Inr decrypted \<Rightarrow> Inr decrypted)"

text \<open>
  When the encryption fails, \<^verbatim>\<open>SetMasterPasswordHash\<close> releases the mutex, which it has not
  taken (line 525). Releasing a free mutex is a fatal error of the Go runtime.
\<close>

definition SetMasterPasswordHash ::
  "'d primitives \<Rightarrow> bytes \<Rightarrow> bytes \<Rightarrow> 'd agent \<Rightarrow> (error option \<times> 'd agent) outcome" where
  "SetMasterPasswordHash P r hash a =
     (let c = config a in
      if IsLocked c then Returns (Some ConfigLocked, a)
      else case encryptString P r hash c of
        Inl err \<Rightarrow>
          (if mu c then Returns (Some err, a\<lparr>config := c\<lparr>mu := False\<rparr>\<rparr>) else Fatal)
      | Inr encryptedHash \<Rightarrow>
          WriteConfig P
            (a\<lparr>config := c\<lparr>ConfigFile :=
               (ConfigFile c)\<lparr>EncryptedMasterPasswordHash := encryptedHash\<rparr>\<rparr>\<rparr>))"

definition GetMasterKey :: "'d primitives \<Rightarrow> Config \<Rightarrow> error + bytes" where
  "GetMasterKey P c =
     (if IsLocked c then Inl ConfigLocked
      else case decryptString P (EncryptedMasterKey (ConfigFile c)) c of
        Inl err \<Rightarrow> Inl err
      | Inr decrypted \<Rightarrow> Inr decrypted)"

definition SetMasterKey ::
  "'d primitives \<Rightarrow> bytes \<Rightarrow> bytes \<Rightarrow> 'd agent \<Rightarrow> (error option \<times> 'd agent) outcome" where
  "SetMasterKey P r k a =
     (let c = config a in
      if IsLocked c then Returns (Some ConfigLocked, a)
      else case encryptString P r k c of
        Inl err \<Rightarrow> Returns (Some err, a)
      | Inr encryptedKey \<Rightarrow>
          WriteConfig P
            (a\<lparr>config := c\<lparr>ConfigFile := (ConfigFile c)\<lparr>EncryptedMasterKey := encryptedKey\<rparr>\<rparr>\<rparr>))"

section \<open>The vault and the synchronisation (package bitwarden)\<close>

subsection \<open>Vault items\<close>

text \<open>
  Modelled from the spec: the packages \<^verbatim>\<open>models\<close> and \<^verbatim>\<open>vault\<close> are declared outside the
  files at hand.

  Of \<^verbatim>\<open>models.CipherType\<close> the source names three values, \<^verbatim>\<open>CipherLogin\<close>, \<^verbatim>\<open>CipherNote\<close> and
  \<^verbatim>\<open>CipherSSHKey\<close>; \<open>CipherOther\<close> stands for any other value of that type. Of a
  \<^verbatim>\<open>models.Cipher\<close> the source reads the identifier, the type and the deleted-timestamp;
  \<open>Data\<close> stands for the remaining fields. A timestamp is counted from Go's zero time, so
  \<^verbatim>\<open>t.IsZero()\<close> is \<open>t = 0\<close>.

  The spec has the vault state hold the items keyed by item id, the id being the primary
  key: adding an item under an id that is present overwrites it, removing an id that is
  absent changes nothing, and clearing removes every item. An item is a tagged union over
  login, secure note and SSH key, and each of the three upsert operations stores the cipher
  under its own tag.
\<close>

datatype CipherType = CipherLogin | CipherNote | CipherSSHKey | CipherOther

record Cipher =
  ID :: string
  Type :: CipherType
  DeletedDate :: int
  Data :: string

datatype VaultItem = Login Cipher | SecureNote Cipher | SSHKey Cipher

record 'k Vault =
  Keyring :: 'k
  items :: "string \<rightharpoonup> VaultItem"
  lastSynced :: int
  websocketConnected :: bool

text \<open>
  Modelled from the spec: the operations of \<^verbatim>\<open>vault.Vault\<close> that the source calls, which are
  declared outside the files at hand. \<^verbatim>\<open>Clear\<close> removes every item; \<^verbatim>\<open>SetLastSynced\<close> stamps
  the time; \<^verbatim>\<open>AddOrUpdateLogin\<close>, \<^verbatim>\<open>AddOrUpdateSecureNote\<close> and \<^verbatim>\<open>AddOrUpdateSSHKey\<close> store
  the cipher under its id, overwriting what was there; \<^verbatim>\<open>DeleteCipher\<close> removes the item
  with the id, if there is one.
\<close>

definition Clear :: "'k Vault \<Rightarrow> 'k Vault" where
  "Clear vault = vault\<lparr>items := Map.empty\<rparr>"

definition SetLastSynced :: "int \<Rightarrow> 'k Vault \<Rightarrow> 'k Vault" where
  "SetLastSynced t vault = vault\<lparr>lastSynced := t\<rparr>"

definition AddOrUpdateLogin :: "Cipher \<Rightarrow> 'k Vault \<Rightarrow> 'k Vault" where
  "AddOrUpdateLogin cipher vault = vault\<lparr>items := (items vault)(ID cipher \<mapsto> Login cipher)\<rparr>"

definition AddOrUpdateSecureNote :: "Cipher \<Rightarrow> 'k Vault \<Rightarrow> 'k Vault" where
  "AddOrUpdateSecureNote cipher vault =
     vault\<lparr>items := (items vault)(ID cipher \<mapsto> SecureNote cipher)\<rparr>"

definition AddOrUpdateSSHKey :: "Cipher \<Rightarrow> 'k Vault \<Rightarrow> 'k Vault" where
  "AddOrUpdateSSHKey cipher vault = vault\<lparr>items := (items vault)(ID cipher \<mapsto> SSHKey cipher)\<rparr>"

definition DeleteCipher :: "string \<Rightarrow> 'k Vault \<Rightarrow> 'k Vault" where
  "DeleteCipher uuid vault = vault\<lparr>items := (items vault)(uuid := None)\<rparr>"

subsection \<open>Full synchronisation\<close>

text \<open>
  The snapshot \<^verbatim>\<open>models.SyncData\<close>, as far as the source reads it. The fields \<^verbatim>\<open>Id\<close> and
  \<^verbatim>\<open>Key\<close> of an organisation are \<open>OrgId\<close> and \<open>OrgKey\<close> here.
\<close>

record Organization =
  OrgId :: string
  OrgKey :: string

record Profile =
  Organizations :: "Organization list"
  PrivateKey :: string

record SyncData =
  Profile :: Profile
  Ciphers :: "Cipher list"

text \<open>
  The remote service and the keyring, which the source reaches through functions that are
  not in the files at hand, are parameters. The context \<^verbatim>\<open>ctx\<close> is the access token it
  carries.
  \<^item> \<open>authenticatedHTTPGet ctx url\<close> is the snapshot the request returns, \<open>None\<close> an error;
  \<^item> \<open>GetCipher ctx uuid\<close> is the single item the request returns, \<open>None\<close> an error;
  \<^item> \<open>InitKeyringFromUserSymmetricKey keyring k privateKey orgKeys\<close> gives the error, if
    any, and the keyring afterwards.
\<close>

record ('k, 'u) remote =
  authenticatedHTTPGet :: "string \<Rightarrow> string \<Rightarrow> SyncData option"
  GetCipher :: "string \<Rightarrow> string \<Rightarrow> Cipher option"
  InitKeyringFromUserSymmetricKey ::
    "'k \<Rightarrow> 'u \<Rightarrow> string \<Rightarrow> (string \<rightharpoonup> string) \<Rightarrow> error option \<times> 'k"

definition Sync :: "('k, 'u) remote \<Rightarrow> string \<Rightarrow> Config \<Rightarrow> error + SyncData" where
  "Sync R ctx c =
     (case authenticatedHTTPGet R ctx (ApiUrl (ConfigFile c) @ ''/sync'') of
        None \<Rightarrow> Inl CouldNotSync
      | Some sync \<Rightarrow> Inr sync)"

text \<open>The body of the loop over \<^verbatim>\<open>sync.Ciphers\<close> (lines 57 to 64).\<close>

definition addCipher :: "'k Vault \<Rightarrow> Cipher \<Rightarrow> 'k Vault" where
  "addCipher vault cipher =
     (case Type cipher of
        CipherLogin \<Rightarrow> AddOrUpdateLogin cipher vault
      | CipherNote \<Rightarrow> AddOrUpdateSecureNote cipher vault
      | CipherSSHKey \<Rightarrow> AddOrUpdateSSHKey cipher vault
      | CipherOther \<Rightarrow> vault)"

text \<open>\<open>now\<close> is \<^verbatim>\<open>time.Now().Unix()\<close> at line 54.\<close>

definition DoFullSync ::
  "('k, 'u) remote \<Rightarrow> int \<Rightarrow> string \<Rightarrow> 'k Vault \<Rightarrow> Config \<Rightarrow> 'u option \<Rightarrow> bool \<Rightarrow>
   error option \<times> 'k Vault" where
  "DoFullSync R now ctx vault c userSymmetricKey allowCache =
     (case Sync R ctx c of
        Inl err \<Rightarrow> (Some err, vault)
      | Inr sync \<Rightarrow>
          (let orgKeys = foldl (\<lambda>m org. m(OrgId org \<mapsto> OrgKey org)) Map.empty
                           (Organizations (Profile sync));
               initialised =
                 (case userSymmetricKey of
                    None \<Rightarrow> (None, vault)
                  | Some k \<Rightarrow>
                      (case InitKeyringFromUserSymmetricKey R (Keyring vault) k
                              (PrivateKey (Profile sync)) orgKeys of
                         (e, keyring) \<Rightarrow> (e, vault\<lparr>Keyring := keyring\<rparr>)))
           in (case initialised of
                 (Some e, vault1) \<Rightarrow> (Some e, vault1)
               | (None, vault1) \<Rightarrow>
                   (None, foldl addCipher (SetLastSynced now (Clear vault1)) (Ciphers sync)))))"

subsection \<open>The push channel\<close>

type_synonym frame = "8 word list"

text \<open>
  What \<^verbatim>\<open>msgpack\<close> decodes a value into: Go's \<^verbatim>\<open>interface{}\<close> with the dynamic types the
  source tells apart, which are \<^verbatim>\<open>[]interface{}\<close>, \<^verbatim>\<open>map[string]interface{}\<close>, \<^verbatim>\<open>int8\<close> and
  \<^verbatim>\<open>string\<close>. \<open>GoInt\<close> is an integer of another type than \<^verbatim>\<open>int8\<close>, \<open>GoOther\<close> any other
  value. A map is the list of its entries with each key at most once; \<^verbatim>\<open>m[k]\<close> is
  \<open>map_of m k\<close>.
\<close>

datatype go_value =
  GoNil
  | GoBool bool
  | GoInt8 "8 word"
  | GoInt int
  | GoString string
  | GoSlice "go_value list"
  | GoMap "(string \<times> go_value) list"
  | GoOther

text \<open>
  The decoder \<^verbatim>\<open>dec.DecodeSlice()\<close> of the library is a parameter: from the bytes of the
  payload it gives the slice, \<open>None\<close> for \<^verbatim>\<open>nil\<close>, and the error, if any.
\<close>

type_synonym decoder = "frame \<Rightarrow> go_value list option \<times> error option"

text \<open>
  The result of \<^verbatim>\<open>parseMessageTypeFromMessagePack\<close>: the three values it returns, or the
  panic of a type assertion that has no second result.
\<close>

datatype parsed = Parsed "8 word" string bool | Panic

definition parseMessageTypeFromMessagePack :: "decoder \<Rightarrow> frame \<Rightarrow> parsed" where
  "parseMessageTypeFromMessagePack dec messagePack =
     (case dec messagePack of
        (None, err) \<Rightarrow> Parsed 0 '''' False
      | (Some v, Some err) \<Rightarrow> Parsed 0 '''' False
      | (Some v, None) \<Rightarrow>
          (if length v < 5 then Parsed 0 '''' False
           else (case v ! 4 of
             GoSlice v4 \<Rightarrow>
               (if length v4 < 1 then Parsed 0 '''' False
                else (case v4 ! 0 of
                  GoMap value1 \<Rightarrow>
                    (case map_of value1 ''Type'' of
                       None \<Rightarrow> Parsed 0 '''' False
                     | Some (GoInt8 messagePayloadType) \<Rightarrow>
                         (case map_of value1 ''Payload'' of
                            Some (GoMap payload) \<Rightarrow>
                              (case map_of payload ''Id'' of
                                 None \<Rightarrow> Parsed 0 '''' False
                               | Some (GoString s) \<Rightarrow> Parsed messagePayloadType s True
                               | Some _ \<Rightarrow> Panic)
                          | _ \<Rightarrow> Parsed messagePayloadType '''' True)
                     | Some _ \<Rightarrow> Parsed 0 '''' False)
                | _ \<Rightarrow> Parsed 0 '''' False))
           | _ \<Rightarrow> Parsed 0 '''' False)))"

text \<open>
  The loop of \<^verbatim>\<open>websocketMessageType\<close> over the bytes from index \<open>i\<close> on: one more than the
  index of the first byte whose high bit is 0, and 0 when there is none.
\<close>

fun lenBufferLen :: "nat \<Rightarrow> frame \<Rightarrow> nat" where
  "lenBufferLen i [] = 0"
| "lenBufferLen i (b # bs) = (if b AND 0x80 = 0 then i + 1 else lenBufferLen (i + 1) bs)"

definition websocketMessageType :: "decoder \<Rightarrow> frame \<Rightarrow> parsed" where
  "websocketMessageType dec message =
     parseMessageTypeFromMessagePack dec (drop (lenBufferLen 0 message) message)"

definition SyncCipherUpdate :: int where "SyncCipherUpdate = 0"
definition SyncCipherCreate :: int where "SyncCipherCreate = 1"
definition SyncLoginDelete :: int where "SyncLoginDelete = 2"
definition SyncFolderDelete :: int where "SyncFolderDelete = 3"
definition SyncCiphers :: int where "SyncCiphers = 4"
definition SyncVault :: int where "SyncVault = 5"
definition SyncOrgKeys :: int where "SyncOrgKeys = 6"
definition SyncFolderCreate :: int where "SyncFolderCreate = 7"
definition SyncFolderUpdate :: int where "SyncFolderUpdate = 8"
definition SyncCipherDelete :: int where "SyncCipherDelete = 9"
definition SyncSettings :: int where "SyncSettings = 10"
definition LogOut :: int where "LogOut = 11"
definition SyncSendCreate :: int where "SyncSendCreate = 12"
definition SyncSendUpdate :: int where "SyncSendUpdate = 13"
definition SyncSendDelete :: int where "SyncSendDelete = 14"
definition AuthRequest :: int where "AuthRequest = 15"
definition AuthRequestResponse :: int where "AuthRequestResponse = 16"

text \<open>
  One round of the reader's loop ends in one of four ways: the loop goes on
  (\<^verbatim>\<open>continue\<close>, \<^verbatim>\<open>break\<close> out of the switch, or the end of the body), the reader returns and
  the connection is given up, the process exits, or the process dies of a panic.
\<close>

datatype 'k step = Continue "'k Vault" | Return "'k Vault" | Exit | Crash

text \<open>
  The body of the loop for a message that was read (lines 118 to 229). The branch of
  \<^verbatim>\<open>AuthRequest\<close> asks the user and answers the remote service; it does not touch the vault
  and always goes on with the loop.
\<close>

definition handleMessage ::
  "'d primitives \<Rightarrow> ('k, 'u) remote \<Rightarrow> decoder \<Rightarrow> int \<Rightarrow> Config \<Rightarrow> frame \<Rightarrow> 'k Vault \<Rightarrow> 'k step" where
  "handleMessage P R dec now cfg message vault =
     (if length message < 5 then Continue vault
      else case websocketMessageType dec message of
        Panic \<Rightarrow> Crash
      | Parsed messageType cipherid success \<Rightarrow>
         (if \<not> success then Continue vault
          else
            let mt1 = sint messageType in
            if mt1 = SyncCiphers \<or> mt1 = SyncVault then
              (case GetToken P cfg of
                 Inl err \<Rightarrow> Continue vault
               | Inr token \<Rightarrow>
                   (case DoFullSync R now (AccessToken token) vault cfg (None :: 'u option) False of
                      (Some err, vault1) \<Rightarrow> Return vault1
                    | (None, vault1) \<Rightarrow> Continue vault1))
            else if mt1 = SyncCipherDelete then Continue (DeleteCipher cipherid vault)
            else if mt1 = SyncCipherUpdate then
              (case GetToken P cfg of
                 Inl err \<Rightarrow> Continue vault
               | Inr token \<Rightarrow>
                   (case GetCipher R (AccessToken token) cipherid of
                      None \<Rightarrow> Continue vault
                    | Some cipher \<Rightarrow>
                        if DeletedDate cipher \<noteq> 0 then Continue (DeleteCipher cipherid vault)
                        else Continue (SetLastSynced now
                               (if Type cipher = CipherNote then AddOrUpdateSecureNote cipher vault
                                else AddOrUpdateLogin cipher vault))))
            else if mt1 = SyncCipherCreate then
              (case GetToken P cfg of
                 Inl err \<Rightarrow> Continue vault
               | Inr token \<Rightarrow>
                   (case GetCipher R (AccessToken token) cipherid of
                      None \<Rightarrow> Continue vault
                    | Some cipher \<Rightarrow>
                        Continue (SetLastSynced now
                          (if Type cipher = CipherNote then AddOrUpdateSecureNote cipher vault
                           else AddOrUpdateLogin cipher vault))))
            else if mt1 = SyncSendCreate \<or> mt1 = SyncSendUpdate \<or> mt1 = SyncSendDelete
              then Continue vault
            else if mt1 = LogOut then Exit
            else if mt1 = AuthRequest then Continue vault
            else if mt1 = AuthRequestResponse then Continue vault
            else if mt1 = SyncFolderDelete \<or> mt1 = SyncFolderCreate \<or> mt1 = SyncFolderUpdate
              then Continue vault
            else if mt1 = SyncOrgKeys \<or> mt1 = SyncSettings then Continue vault
            else Continue vault))"

text \<open>
  The reader over the results of \<^verbatim>\<open>c.ReadMessage()\<close>, each with the time of its round:
  \<open>None\<close> is a read error, at which the reader returns. \<open>Continue\<close> at the end of the list
  says that the reader is still running.
\<close>

fun reader ::
  "'d primitives \<Rightarrow> ('k, 'u) remote \<Rightarrow> decoder \<Rightarrow> Config \<Rightarrow> (int \<times> frame option) list \<Rightarrow>
   'k Vault \<Rightarrow> 'k step" where
  "reader P R dec cfg [] vault = Continue vault"
| "reader P R dec cfg ((now, None) # rest) vault = Return vault"
| "reader P R dec cfg ((now, Some message) # rest) vault =
     (case handleMessage P R dec now cfg message vault of
        Continue vault1 \<Rightarrow> reader P R dec cfg rest vault1
      | Return vault1 \<Rightarrow> Return vault1
      | Exit \<Rightarrow> Exit
      | Crash \<Rightarrow> Crash)"

section \<open>What is assumed of the libraries\<close>

text \<open>
  The properties below are the documented behaviour of the libraries. A theorem that
  needs one of them names it as a premise.
  \<^item> \<open>aead_correct\<close>: decrypting, under a key of 32 bytes, what was encrypted under that key
    gives the plaintext back.
  \<^item> \<open>aead_total\<close>: encryption under a key of 32 bytes does not fail.
  \<^item> \<open>aead_rejects_short\<close>: a ciphertext shorter than nonce and tag together, 28 bytes, is
    an error.
  \<^item> \<open>b64_correct\<close>: decoding an encoding gives the bytes back; and the empty string
    decodes to no bytes.
  \<^item> \<open>kdf_32\<close>: the derived key has the 32 bytes that were asked for.
  \<^item> \<open>sum256_32\<close>: a SHA3-256 digest has 32 bytes.
\<close>

definition aead_correct :: "'d primitives \<Rightarrow> bool" where
  "aead_correct P =
     (\<forall>k r pt ct. length k = 32 \<longrightarrow> aead_Encrypt P k r pt = Some ct \<longrightarrow> aead_Decrypt P k ct = Some pt)"

definition aead_total :: "'d primitives \<Rightarrow> bool" where
  "aead_total P = (\<forall>k r pt. length k = 32 \<longrightarrow> aead_Encrypt P k r pt \<noteq> None)"

definition aead_rejects_short :: "'d primitives \<Rightarrow> bool" where
  "aead_rejects_short P = (\<forall>k ct. length ct < 28 \<longrightarrow> aead_Decrypt P k ct = None)"

definition b64_correct :: "'d primitives \<Rightarrow> bool" where
  "b64_correct P =
     ((\<forall>b. b64_DecodeString P (b64_EncodeToString P b) = Some b) \<and> b64_DecodeString P '''' = Some '''')"

definition kdf_32 :: "'d primitives \<Rightarrow> bool" where
  "kdf_32 P = (\<forall>password salt. length (argon2_Key P password salt) = 32)"

definition sum256_32 :: "'d primitives \<Rightarrow> bool" where
  "sum256_32 P = (\<forall>b. length (sha3_Sum256 P b) = 32)"

text \<open>
  A small instance of the libraries, which has these properties; the examples below run
  the model with it. Its cipher writes the nonce, the key and the plaintext one after the
  other, and its file system holds the record last written.
\<close>

definition tiny :: "ConfigFile option primitives" where
  "tiny =
     \<lparr>argon2_Key = (\<lambda>password salt. take 32 (password @ salt @ replicate 32 (CHR ''k''))),
      sha3_Sum256 = (\<lambda>b. take 32 (rev b @ replicate 32 (CHR ''h''))),
      aead_Encrypt = (\<lambda>k r pt. Some (take 12 (r @ replicate 12 (CHR ''n'')) @ k @ pt)),
      aead_Decrypt = (\<lambda>k ct.
        if length ct < 28 then None
        else if take (length k) (drop 12 ct) = k then Some (drop (12 + length k) ct)
        else None),
      b64_EncodeToString = (\<lambda>b. b),
      b64_DecodeString = (\<lambda>s. Some s),
      json_Marshal = (\<lambda>token. Some (AccessToken token)),
      json_Unmarshal = (\<lambda>s. Some \<lparr>AccessToken = s, ExpiresIn = 0, TokenType = '''',
                                     RefreshToken = '''', Key = ''''\<rparr>),
      persist = (\<lambda>cf d. (None, Some cf))\<rparr>"

section \<open>Notions the statements use\<close>

text \<open>
  The digest that \<^verbatim>\<open>Unlock\<close>, \<^verbatim>\<open>VerifyPin\<close> and \<^verbatim>\<open>UpdatePin\<close> compute from a pin: the key
  derived from the pin and the device identifier, hashed and written in hexadecimal
  (lines 243 to 246).
\<close>

definition digest :: "'d primitives \<Rightarrow> string \<Rightarrow> Config \<Rightarrow> string" where
  "digest P password c =
     hex_EncodeToString (sha3_Sum256 P (argon2_Key P password (DeviceUUID (ConfigFile c))))"

text \<open>
  The store as \<^verbatim>\<open>UpdatePin\<close> has it when it decrypts the fields (lines 310 to 315): the
  hash is the one of the new pin already, the key is the old one still.
\<close>

definition duringUpdate :: "'d primitives \<Rightarrow> string \<Rightarrow> Config \<Rightarrow> Config" where
  "duringUpdate P password c =
     c\<lparr>ConfigFile := (ConfigFile c)\<lparr>ConfigKeyHash := digest P password c\<rparr>\<rparr>"

text \<open>
  What one of the six blocks of \<^verbatim>\<open>UpdatePin\<close> leaves in its field, given the result \<open>d\<close> of
  the decryption, the key \<open>k\<close> now in place and the field's value \<open>old\<close>.
\<close>

definition sealed :: "'d primitives \<Rightarrow> bytes \<Rightarrow> bytes \<Rightarrow> error + string \<Rightarrow> string \<Rightarrow> string" where
  "sealed P k r d old =
     (case d of
        Inl e \<Rightarrow> old
      | Inr pt \<Rightarrow>
          (case aead_Encrypt P k r pt of None \<Rightarrow> '''' | Some ct \<Rightarrow> b64_EncodeToString P ct))"

text \<open>
  A field \<open>f\<close> is carried over from the store \<open>c\<close> to the store \<open>c'\<close> by a change of pin when:
  if \<^verbatim>\<open>UpdatePin\<close> could not decrypt it, \<open>c'\<close> has the value that \<open>c\<close> had; and if
  \<^verbatim>\<open>UpdatePin\<close> decrypted it to \<open>pt\<close>, the value in \<open>c'\<close> is an encryption of \<open>pt\<close> under the
  key of \<open>c'\<close> (with the randomness \<open>ri\<close>) and decrypts to \<open>pt\<close> there.
\<close>

definition carried ::
  "'d primitives \<Rightarrow> bytes \<Rightarrow> string \<Rightarrow> Config \<Rightarrow> Config \<Rightarrow> (ConfigFile \<Rightarrow> string) \<Rightarrow> bool" where
  "carried P ri password c c' f =
     (case decryptString P (f (ConfigFile c)) (duringUpdate P password c) of
        Inl e \<Rightarrow> f (ConfigFile c') = f (ConfigFile c)
      | Inr pt \<Rightarrow> encryptString P ri pt c' = Inr (f (ConfigFile c')) \<and>
                 decryptString P (f (ConfigFile c')) c' = Inr pt)"

text \<open>
  The same with the decryption read on the store \<open>c\<close> as it was before the change of pin:
  a field that did not decrypt under \<open>c\<close> has in \<open>c'\<close> the value it had, and a field that
  decrypted to \<open>pt\<close> is in \<open>c'\<close> an encryption of \<open>pt\<close> under the key of \<open>c'\<close> and decrypts
  to \<open>pt\<close> there.
\<close>

definition rekeyedField ::
  "'d primitives \<Rightarrow> bytes \<Rightarrow> Config \<Rightarrow> Config \<Rightarrow> (ConfigFile \<Rightarrow> string) \<Rightarrow> bool" where
  "rekeyedField P ri c c' f =
     (case decryptString P (f (ConfigFile c)) c of
        Inl e \<Rightarrow> f (ConfigFile c') = f (ConfigFile c)
      | Inr pt \<Rightarrow> encryptString P ri pt c' = Inr (f (ConfigFile c')) \<and>
                 decryptString P (f (ConfigFile c')) c' = Inr pt)"

text \<open>
  The store that \<^verbatim>\<open>UpdatePin\<close> leaves when none of its encryptions fails: the mutex free
  again, the key derived from the new pin, its digest, and in each field what the field's
  block left there.
\<close>

definition rekeyed :: "'d primitives \<Rightarrow> (nat \<Rightarrow> bytes) \<Rightarrow> string \<Rightarrow> Config \<Rightarrow> Config" where
  "rekeyed P r password c =
     (let k = argon2_Key P password (DeviceUUID (ConfigFile c));
          c1 = duringUpdate P password c;
          cf = ConfigFile c
      in c\<lparr>mu := False,
           key := k,
           ConfigFile := cf
             \<lparr>ConfigKeyHash := digest P password c,
              EncryptedToken :=
                sealed P k (r 1) (decryptString P (EncryptedToken cf) c1) (EncryptedToken cf),
              EncryptedUserSymmetricKey :=
                sealed P k (r 2) (decryptString P (EncryptedUserSymmetricKey cf) c1)
                  (EncryptedUserSymmetricKey cf),
              EncryptedMasterPasswordHash :=
                sealed P k (r 3) (decryptString P (EncryptedMasterPasswordHash cf) c1)
                  (EncryptedMasterPasswordHash cf),
              EncryptedMasterKey :=
                sealed P k (r 4) (decryptString P (EncryptedMasterKey cf) c1) (EncryptedMasterKey cf),
              EncryptedClientID :=
                sealed P k (r 5) (decryptString P (EncryptedClientID cf) c1) (EncryptedClientID cf),
              EncryptedClientSecret :=
                sealed P k (r 6) (decryptString P (EncryptedClientSecret cf) c1)
                  (EncryptedClientSecret cf)\<rparr>\<rparr>)"

text \<open>
  \<^verbatim>\<open>WriteConfig\<close> gets past line 613 on a store when persistence is off, so that it returns
  before, or when the path has at least the 16 bytes that the slice expression cuts off.
\<close>

definition writable :: "Config \<Rightarrow> bool" where
  "writable c =
     (DoNotPersistConfig (RuntimeConfig (ConfigFile c)) \<or>
      length ''/goldwarden.json'' \<le> length (ConfigDirectory (RuntimeConfig (ConfigFile c))))"

text \<open>The spec's scenario: change the pin, lock, unlock with the new pin.\<close>

definition rekeyScenario ::
  "'d primitives \<Rightarrow> (nat \<Rightarrow> bytes) \<Rightarrow> string \<Rightarrow> bool \<Rightarrow> 'd agent \<Rightarrow> (bool \<times> 'd agent) outcome" where
  "rekeyScenario P r newPin write a =
     (case UpdatePin P r newPin write a of
        Returns a1 \<Rightarrow>
          (case Lock a1 of
             Returns a2 \<Rightarrow> Unlock P newPin a2
           | Blocks \<Rightarrow> Blocks
           | Fatal \<Rightarrow> Fatal)
      | Blocks \<Rightarrow> Blocks
      | Fatal \<Rightarrow> Fatal)"

subsection \<open>Example stores\<close>

definition agentOf :: "Config \<Rightarrow> ConfigFile option agent" where
  "agentOf c = \<lparr>config = c, disk = None, pincache = None, notifications = []\<rparr>"

text \<open>A store as \<^verbatim>\<open>DefaultConfig\<close> makes it: no pin, the key all zero.\<close>

definition newStore :: Config where
  "newStore = DefaultConfig False ''dev''"

text \<open>A store whose pin is 1234, locked; and the same store unlocked.\<close>

definition lockedStore :: Config where
  "lockedStore = newStore\<lparr>ConfigFile := (ConfigFile newStore)\<lparr>ConfigKeyHash := digest tiny ''1234'' newStore\<rparr>\<rparr>"

definition openStore :: Config where
  "openStore = lockedStore\<lparr>key := argon2_Key tiny ''1234'' ''dev''\<rparr>"

text \<open>
  The caller of \<^verbatim>\<open>DefaultConfig\<close> and \<^verbatim>\<open>ReadConfig\<close> fills in the runtime configuration;
  \<open>withPath\<close> gives a store the path of its file, and \<open>withoutFile\<close> turns persistence off.
\<close>

definition withPath :: "Config \<Rightarrow> Config" where
  "withPath c =
     c\<lparr>ConfigFile := (ConfigFile c)\<lparr>RuntimeConfig := (RuntimeConfig (ConfigFile c))
        \<lparr>ConfigDirectory := ''/home/u/.config/goldwarden/goldwarden.json''\<rparr>\<rparr>\<rparr>"

definition withoutFile :: "Config \<Rightarrow> Config" where
  "withoutFile c =
     c\<lparr>ConfigFile := (ConfigFile c)\<lparr>RuntimeConfig := (RuntimeConfig (ConfigFile c))
        \<lparr>DoNotPersistConfig := True\<rparr>\<rparr>\<rparr>"

text \<open>
  An unlocked store with its file, after \<^verbatim>\<open>SetClientID("id")\<close>, whose token field holds
  the base64 of \<^verbatim>\<open>stale\<close>, which is too short to be a ciphertext.
\<close>

definition staleAgent :: "ConfigFile option agent" where
  "staleAgent =
     (case SetClientID tiny ''nonce'' ''id'' (agentOf (withPath openStore)) of
        Returns (err, a) \<Rightarrow>
          a\<lparr>config := (config a)\<lparr>ConfigFile := (ConfigFile (config a))\<lparr>EncryptedToken := ''c3RhbGU=''\<rparr>\<rparr>\<rparr>
      | Blocks \<Rightarrow> agentOf (withPath openStore)
      | Fatal \<Rightarrow> agentOf (withPath openStore))"

text \<open>
  A new store, without a pin, after \<^verbatim>\<open>SetClientID("id")\<close>: once with its file, once with
  persistence off.
\<close>

definition firstRun :: "ConfigFile option agent" where
  "firstRun =
     (case SetClientID tiny ''nonce'' ''id'' (agentOf (withPath newStore)) of
        Returns (err, a) \<Rightarrow> a
      | Blocks \<Rightarrow> agentOf (withPath newStore)
      | Fatal \<Rightarrow> agentOf (withPath newStore))"

definition firstRunNoFile :: "ConfigFile option agent" where
  "firstRunNoFile =
     (case SetClientID tiny ''nonce'' ''id'' (agentOf (withoutFile newStore)) of
        Returns (err, a) \<Rightarrow> a
      | Blocks \<Rightarrow> agentOf (withoutFile newStore)
      | Fatal \<Rightarrow> agentOf (withoutFile newStore))"

subsection \<open>The item set of a snapshot\<close>

text \<open>
  The spec's words for a full synchronisation: every item of the snapshot is upserted by
  the operation that matches its type, and re-adding an id overwrites. \<open>storedAs\<close> is the
  item a cipher becomes under the operation of its type (none for a type that has no
  operation); \<open>snapshotItems\<close> is the vault state these words describe: under each id, the
  last cipher of the snapshot with that id and one of the three types.
\<close>

definition storedAs :: "Cipher \<Rightarrow> VaultItem option" where
  "storedAs cipher =
     (case Type cipher of
        CipherLogin \<Rightarrow> Some (Login cipher)
      | CipherNote \<Rightarrow> Some (SecureNote cipher)
      | CipherSSHKey \<Rightarrow> Some (SSHKey cipher)
      | CipherOther \<Rightarrow> None)"

definition snapshotItems :: "Cipher list \<Rightarrow> string \<rightharpoonup> VaultItem" where
  "snapshotItems ciphers uuid =
     (case rev (filter (\<lambda>cipher. ID cipher = uuid \<and> storedAs cipher \<noteq> None) ciphers) of
        [] \<Rightarrow> None
      | cipher # earlier \<Rightarrow> storedAs cipher)"

subsection \<open>A decoder for the examples\<close>

text \<open>
  For the examples, which run the push channel on the bytes of a frame, a decoder of the
  part of MessagePack that they use stands for the library's: positive and negative fixint
  (which the library decodes to \<^verbatim>\<open>int8\<close>), \<^verbatim>\<open>int8\<close>, \<^verbatim>\<open>uint8\<close>, fixstr, fixarray, fixmap with
  string keys, nil and the booleans; any other byte is an error. \<open>fuel\<close> bounds the depth of
  nesting. In a map a key that occurs twice has the value of its last occurrence.
\<close>

definition bytesToString :: "frame \<Rightarrow> string" where
  "bytesToString bs = map (\<lambda>b. char_of (unat b)) bs"

fun decodeInterface :: "nat \<Rightarrow> frame \<Rightarrow> (go_value \<times> frame) option"
  and decodeValues :: "nat \<Rightarrow> nat \<Rightarrow> frame \<Rightarrow> (go_value list \<times> frame) option"
  and decodeEntries :: "nat \<Rightarrow> nat \<Rightarrow> frame \<Rightarrow> ((string \<times> go_value) list \<times> frame) option"
  where
  "decodeInterface 0 bs = None"
| "decodeInterface (Suc fuel) [] = None"
| "decodeInterface (Suc fuel) (b # bs) =
     (if b \<le> 0x7F \<or> 0xE0 \<le> b then Some (GoInt8 b, bs)
      else if b AND 0xF0 = 0x80 then
        (case decodeEntries fuel (unat (b AND 0x0F)) bs of
           None \<Rightarrow> None
         | Some (entries, rest) \<Rightarrow> Some (GoMap entries, rest))
      else if b AND 0xF0 = 0x90 then
        (case decodeValues fuel (unat (b AND 0x0F)) bs of
           None \<Rightarrow> None
         | Some (vs, rest) \<Rightarrow> Some (GoSlice vs, rest))
      else if b AND 0xE0 = 0xA0 then
        (let n = unat (b AND 0x1F) in
         if length bs < n then None else Some (GoString (bytesToString (take n bs)), drop n bs))
      else if b = 0xC0 then Some (GoNil, bs)
      else if b = 0xC2 then Some (GoBool False, bs)
      else if b = 0xC3 then Some (GoBool True, bs)
      else if b = 0xCC then
        (case bs of [] \<Rightarrow> None | x # rest \<Rightarrow> Some (GoInt (uint x), rest))
      else if b = 0xD0 then
        (case bs of [] \<Rightarrow> None | x # rest \<Rightarrow> Some (GoInt8 x, rest))
      else None)"
| "decodeValues fuel 0 bs = Some ([], bs)"
| "decodeValues fuel (Suc n) bs =
     (case decodeInterface fuel bs of
        None \<Rightarrow> None
      | Some (v, rest) \<Rightarrow>
          (case decodeValues fuel n rest of
             None \<Rightarrow> None
           | Some (vs, rest') \<Rightarrow> Some (v # vs, rest')))"
| "decodeEntries fuel 0 bs = Some ([], bs)"
| "decodeEntries fuel (Suc n) bs =
     (case decodeInterface fuel bs of
        Some (GoString k, rest) \<Rightarrow>
          (case decodeInterface fuel rest of
             None \<Rightarrow> None
           | Some (v, rest') \<Rightarrow>
               (case decodeEntries fuel n rest' of
                  None \<Rightarrow> None
                | Some (entries, rest'') \<Rightarrow>
                    Some (if k \<in> fst ` set entries then entries else (k, v) # entries, rest'')))
      | _ \<Rightarrow> None)"

definition fixDecodeSlice :: decoder where
  "fixDecodeSlice bs =
     (case bs of
        [] \<Rightarrow> (None, Some MsgpackError)
      | b # rest \<Rightarrow>
          if b = 0xC0 then (None, None)
          else if b AND 0xF0 = 0x90 then
            (case decodeValues (length bs) (unat (b AND 0x0F)) rest of
               None \<Rightarrow> (None, Some MsgpackError)
             | Some (vs, rest') \<Rightarrow> (Some vs, None))
          else (None, Some MsgpackError))"

subsection \<open>Example frames, service and vault\<close>

text \<open>
  A frame is the length of its payload in one byte and the payload, an array of five:
  1, an empty map, nil, the string \<^verbatim>\<open>ReceiveMessage\<close>, and an array of one map with the keys
  \<^verbatim>\<open>Type\<close> and \<^verbatim>\<open>Payload\<close>, the payload being a map with the key \<^verbatim>\<open>Id\<close>.
  \<open>eventFrame t\<close> has the type \<open>t\<close> and the id \<^verbatim>\<open>abc\<close>; \<open>badIdFrame\<close> has the type 1 and the
  number 5 for an id.
\<close>

definition framePrefix :: frame where
  "framePrefix =
     [0x95, 0x01, 0x80, 0xC0,
      0xAE, 0x52, 0x65, 0x63, 0x65, 0x69, 0x76, 0x65, 0x4D, 0x65, 0x73, 0x73, 0x61, 0x67, 0x65,
      0x91, 0x82, 0xA4, 0x54, 0x79, 0x70, 0x65]"

definition payloadKey :: frame where
  "payloadKey = [0xA7, 0x50, 0x61, 0x79, 0x6C, 0x6F, 0x61, 0x64, 0x81, 0xA2, 0x49, 0x64]"

definition eventFrame :: "8 word \<Rightarrow> frame" where
  "eventFrame t = 0x2B # framePrefix @ [t] @ payloadKey @ [0xA3, 0x61, 0x62, 0x63]"

definition badIdFrame :: frame where
  "badIdFrame = 0x28 # framePrefix @ [0x01] @ payloadKey @ [0x05]"

text \<open>
  A store that is unlocked and holds a token; a remote service whose item \<^verbatim>\<open>abc\<close> is a login
  in the trash (its deleted-timestamp is set); and a vault that holds the login \<^verbatim>\<open>abc\<close> and
  the login \<^verbatim>\<open>xyz\<close>.
\<close>

definition loggedIn :: Config where
  "loggedIn =
     (case SetToken tiny ''nonce''
             \<lparr>AccessToken = ''tok'', ExpiresIn = 3600, TokenType = ''Bearer'',
              RefreshToken = '''', Key = ''''\<rparr> (agentOf (withPath openStore)) of
        Returns (err, a) \<Rightarrow> config a
      | Blocks \<Rightarrow> withPath openStore
      | Fatal \<Rightarrow> withPath openStore)"

definition trashed :: Cipher where
  "trashed = \<lparr>ID = ''abc'', Type = CipherLogin, DeletedDate = 1700000000, Data = ''new''\<rparr>"

definition service :: "(unit, unit) remote" where
  "service =
     \<lparr>authenticatedHTTPGet = (\<lambda>ctx url. None),
      GetCipher = (\<lambda>ctx uuid. if ctx = ''tok'' \<and> uuid = ''abc'' then Some trashed else None),
      InitKeyringFromUserSymmetricKey = (\<lambda>keyring k privateKey orgKeys. (None, keyring))\<rparr>"

definition someVault :: "unit Vault" where
  "someVault =
     \<lparr>Keyring = (),
      items = [''abc'' \<mapsto> Login \<lparr>ID = ''abc'', Type = CipherLogin, DeletedDate = 0, Data = ''old''\<rparr>,
               ''xyz'' \<mapsto> Login \<lparr>ID = ''xyz'', Type = CipherLogin, DeletedDate = 0, Data = ''other''\<rparr>],
      lastSynced = 0,
      websocketConnected = True\<rparr>"

text \<open>
  A snapshot with a login, a note, an SSH key, a cipher of another type, and a second,
  later login under the id of the first; and a service that returns it.
\<close>

definition snapshot :: SyncData where
  "snapshot =
     \<lparr>Profile = \<lparr>Organizations = [\<lparr>OrgId = ''org'', OrgKey = ''orgkey''\<rparr>], PrivateKey = ''pk''\<rparr>,
      Ciphers =
        [\<lparr>ID = ''abc'', Type = CipherLogin, DeletedDate = 0, Data = ''first''\<rparr>,
         \<lparr>ID = ''n1'', Type = CipherNote, DeletedDate = 0, Data = ''note''\<rparr>,
         \<lparr>ID = ''s1'', Type = CipherSSHKey, DeletedDate = 0, Data = ''ssh''\<rparr>,
         \<lparr>ID = ''o1'', Type = CipherOther, DeletedDate = 0, Data = ''card''\<rparr>,
         \<lparr>ID = ''abc'', Type = CipherLogin, DeletedDate = 0, Data = ''second''\<rparr>]\<rparr>"

definition syncService :: "(unit, unit) remote" where
  "syncService =
     service\<lparr>authenticatedHTTPGet :=
       (\<lambda>ctx url. if ctx = ''tok'' \<and> url = ''https://api.bitwarden.com/sync''
                   then Some snapshot else None)\<rparr>"

section \<open>Properties of the credential store\<close>

subsection \<open>The small instance has the assumed properties\<close>

lemma tiny_kdf_32: "kdf_32 tiny"
  by (auto simp: kdf_32_def tiny_def)

lemma tiny_sum256_32: "sum256_32 tiny"
  by (auto simp: sum256_32_def tiny_def)

lemma tiny_aead_correct: "aead_correct tiny"
  by (simp add: aead_correct_def tiny_def)

lemma tiny_aead_total: "aead_total tiny"
  by (simp add: aead_total_def tiny_def)

lemma tiny_aead_rejects_short: "aead_rejects_short tiny"
  by (simp add: aead_rejects_short_def tiny_def)

lemma tiny_b64_correct: "b64_correct tiny"
  by (simp add: b64_correct_def tiny_def)

subsection \<open>The example stores\<close>

lemma newStore_unlocked: "\<not> IsLocked newStore"
  by (simp add: newStore_def DefaultConfig_def IsLocked_def HasPin_def)

lemma newStore_key_length: "length (key newStore) = 32"
  by (simp add: newStore_def DefaultConfig_def NewBuffer_def)

lemma lockedStore_locked: "IsLocked lockedStore"
  by code_simp

lemma openStore_unlocked: "\<not> IsLocked openStore"
  by code_simp

lemma openStore_key_length: "length (key openStore) = 32"
  using tiny_kdf_32 by (simp add: openStore_def kdf_32_def)

lemma agentOf_simps:
  "config (agentOf c) = c"
  "disk (agentOf c) = None"
  "pincache (agentOf c) = None"
  "notifications (agentOf c) = []"
  by (simp_all add: agentOf_def)

subsection \<open>Lock state\<close>

text \<open>
  C8. The store reports locked exactly when the key is 32 zero bytes and a config-key-hash
  is set. So a store without a config-key-hash is never locked, and the store that
  \<^verbatim>\<open>DefaultConfig\<close> constructs is not locked.
\<close>

theorem IsLocked_iff_zero_key_and_hash:
  "(IsLocked c \<longleftrightarrow> key c = replicate 32 (CHR 0x00) \<and> ConfigKeyHash (ConfigFile c) \<noteq> '''') \<and>
   (HasPin c \<longleftrightarrow> ConfigKeyHash (ConfigFile c) \<noteq> '''') \<and>
   \<not> (ConfigKeyHash (ConfigFile c) = '''' \<and> IsLocked c) \<and>
   \<not> IsLocked (DefaultConfig memguard deviceUUID)"
  by (simp add: IsLocked_def HasPin_def Bytes_def DefaultConfig_def)

subsection \<open>Accessors of a locked store\<close>

text \<open>
  C7. While the store is locked, each of the six getters and the six setters fails with
  the error \<open>ConfigLocked\<close>; a setter leaves the store, the file system and everything else
  as they were, so the store is locked afterwards as well.
\<close>

theorem locked_accessors_fail:
  assumes "IsLocked (config a)"
  shows "GetToken P (config a) = Inl ConfigLocked \<and>
         SetToken P r token a = Returns (Some ConfigLocked, a) \<and>
         GetClientID P (config a) = Inl ConfigLocked \<and>
         SetClientID P r s a = Returns (Some ConfigLocked, a) \<and>
         GetClientSecret P (config a) = Inl ConfigLocked \<and>
         SetClientSecret P r s a = Returns (Some ConfigLocked, a) \<and>
         GetUserSymmetricKey P (config a) = Inl ConfigLocked \<and>
         SetUserSymmetricKey P r b a = Returns (Some ConfigLocked, a) \<and>
         GetMasterPasswordHash P (config a) = Inl ConfigLocked \<and>
         SetMasterPasswordHash P r b a = Returns (Some ConfigLocked, a) \<and>
         GetMasterKey P (config a) = Inl ConfigLocked \<and>
         SetMasterKey P r b a = Returns (Some ConfigLocked, a)"
  using assms
  by (simp add: GetToken_def SetToken_def GetClientID_def SetClientID_def GetClientSecret_def
      SetClientSecret_def GetUserSymmetricKey_def SetUserSymmetricKey_def
      GetMasterPasswordHash_def SetMasterPasswordHash_def GetMasterKey_def SetMasterKey_def)

theorem locked_accessors_fail_witness:
  "IsLocked (config (agentOf lockedStore)) \<and>
   GetToken tiny (config (agentOf lockedStore)) = Inl ConfigLocked \<and>
   SetClientID tiny ''nonce'' ''id'' (agentOf lockedStore) =
     Returns (Some ConfigLocked, agentOf lockedStore) \<and>
   SetMasterKey tiny ''nonce'' ''secret'' (agentOf lockedStore) =
     Returns (Some ConfigLocked, agentOf lockedStore)"
proof -
  have locked: "IsLocked (config (agentOf lockedStore))"
    by (simp add: agentOf_simps lockedStore_locked)
  from locked_accessors_fail [OF locked, where P = tiny and r = "''nonce''" and s = "''id''"
      and b = "''secret''"] locked
  show ?thesis by simp
qed

subsection \<open>Getters on an empty field\<close>

lemma decryptString_empty:
  assumes "\<not> IsLocked c" and "b64_correct P" and "aead_rejects_short P"
  shows "decryptString P '''' c = Inl (if length (key c) = 32 then DecryptError else InvalidKeySize)"
  using assms
  by (simp add: decryptString_def b64_correct_def aead_rejects_short_def
      NewChaCha20Poly1305_def Bytes_def)

text \<open>
  C10. While the store is unlocked: \<^verbatim>\<open>GetClientID\<close> and \<^verbatim>\<open>GetClientSecret\<close> return the empty
  string and no error when their field is empty. \<^verbatim>\<open>GetToken\<close>, \<^verbatim>\<open>GetUserSymmetricKey\<close>,
  \<^verbatim>\<open>GetMasterPasswordHash\<close> and \<^verbatim>\<open>GetMasterKey\<close> decrypt the empty field, and that is an
  error: base64 decodes the empty string to no bytes, and the cipher refuses a ciphertext
  that short (with a key of the wrong size the cipher cannot even be made).
\<close>

theorem getters_on_empty_field:
  assumes "\<not> IsLocked c" and "b64_correct P" and "aead_rejects_short P"
  shows "(EncryptedClientID (ConfigFile c) = '''' \<longrightarrow> GetClientID P c = Inr '''') \<and>
         (EncryptedClientSecret (ConfigFile c) = '''' \<longrightarrow> GetClientSecret P c = Inr '''') \<and>
         (EncryptedToken (ConfigFile c) = '''' \<longrightarrow>
            GetToken P c = Inl (if length (key c) = 32 then DecryptError else InvalidKeySize)) \<and>
         (EncryptedUserSymmetricKey (ConfigFile c) = '''' \<longrightarrow>
            GetUserSymmetricKey P c =
              Inl (if length (key c) = 32 then DecryptError else InvalidKeySize)) \<and>
         (EncryptedMasterPasswordHash (ConfigFile c) = '''' \<longrightarrow>
            GetMasterPasswordHash P c =
              Inl (if length (key c) = 32 then DecryptError else InvalidKeySize)) \<and>
         (EncryptedMasterKey (ConfigFile c) = '''' \<longrightarrow>
            GetMasterKey P c = Inl (if length (key c) = 32 then DecryptError else InvalidKeySize))"
  using assms(1) decryptString_empty [OF assms]
  by (simp add: GetClientID_def GetClientSecret_def GetToken_def GetUserSymmetricKey_def
      GetMasterPasswordHash_def GetMasterKey_def)

theorem getters_on_empty_field_witness:
  "\<not> IsLocked newStore \<and>
   EncryptedClientID (ConfigFile newStore) = '''' \<and> GetClientID tiny newStore = Inr '''' \<and>
   EncryptedClientSecret (ConfigFile newStore) = '''' \<and> GetClientSecret tiny newStore = Inr '''' \<and>
   EncryptedToken (ConfigFile newStore) = '''' \<and> GetToken tiny newStore = Inl DecryptError \<and>
   EncryptedUserSymmetricKey (ConfigFile newStore) = '''' \<and>
   GetUserSymmetricKey tiny newStore = Inl DecryptError \<and>
   EncryptedMasterPasswordHash (ConfigFile newStore) = '''' \<and>
   GetMasterPasswordHash tiny newStore = Inl DecryptError \<and>
   EncryptedMasterKey (ConfigFile newStore) = '''' \<and>
   GetMasterKey tiny newStore = Inl DecryptError"
proof -
  have fields: "EncryptedClientID (ConfigFile newStore) = ''''"
    "EncryptedClientSecret (ConfigFile newStore) = ''''"
    "EncryptedToken (ConfigFile newStore) = ''''"
    "EncryptedUserSymmetricKey (ConfigFile newStore) = ''''"
    "EncryptedMasterPasswordHash (ConfigFile newStore) = ''''"
    "EncryptedMasterKey (ConfigFile newStore) = ''''"
    by (simp_all add: newStore_def DefaultConfig_def)
  from getters_on_empty_field [OF newStore_unlocked tiny_b64_correct tiny_aead_rejects_short]
    fields newStore_unlocked newStore_key_length
  show ?thesis by simp
qed

subsection \<open>Encrypting and decrypting\<close>

text \<open>
  C5. Under an unlocked store whose key has 32 bytes, every byte string encrypts, and the
  result decrypts under the same store to the byte string itself. The string is any list
  of bytes: empty, or not UTF-8.
\<close>

theorem encrypt_then_decrypt:
  assumes "aead_correct P" and "aead_total P" and "b64_correct P"
    and "\<not> IsLocked c" and "length (key c) = 32"
  shows "\<exists>ct. encryptString P r data c = Inr ct \<and> decryptString P ct c = Inr data"
proof -
  from assms(2,5) have "aead_Encrypt P (key c) r data \<noteq> None"
    unfolding aead_total_def by blast
  then obtain result where enc: "aead_Encrypt P (key c) r data = Some result"
    by blast
  with assms(1,5) have dec: "aead_Decrypt P (key c) result = Some data"
    unfolding aead_correct_def by blast
  from assms(3) have b64: "b64_DecodeString P (b64_EncodeToString P result) = Some result"
    by (simp add: b64_correct_def)
  from enc assms(4,5) have "encryptString P r data c = Inr (b64_EncodeToString P result)"
    by (simp add: encryptString_def NewChaCha20Poly1305_def Bytes_def)
  moreover from dec b64 assms(4,5)
  have "decryptString P (b64_EncodeToString P result) c = Inr data"
    by (simp add: decryptString_def NewChaCha20Poly1305_def Bytes_def)
  ultimately show ?thesis by blast
qed

theorem encrypt_then_decrypt_witness:
  "\<not> IsLocked openStore \<and> length (key openStore) = 32 \<and>
   (\<exists>ct. encryptString tiny ''nonce'' [CHR 0xFF, CHR 0x00, CHR 0xC3] openStore = Inr ct \<and>
         decryptString tiny ct openStore = Inr [CHR 0xFF, CHR 0x00, CHR 0xC3]) \<and>
   (\<exists>ct. encryptString tiny ''nonce'' '''' openStore = Inr ct \<and>
         decryptString tiny ct openStore = Inr '''')"
  using encrypt_then_decrypt [OF tiny_aead_correct tiny_aead_total tiny_b64_correct
      openStore_unlocked openStore_key_length]
    openStore_unlocked openStore_key_length
  by simp

subsection \<open>Unlocking\<close>

text \<open>
  C4. With the mutex free: on a locked store, \<^verbatim>\<open>Unlock\<close> with the pin \<open>p\<close> succeeds exactly
  when the digest of the key derived from \<open>p\<close> and the device identifier equals the stored
  config-key-hash; it then installs that key. On a mismatch it returns failure and changes
  nothing, so the store stays locked. On a store that is not locked it returns success
  and changes nothing.
\<close>

theorem Unlock_iff_digest:
  assumes "\<not> mu (config a)"
  shows "(IsLocked (config a) \<longrightarrow>
            ((\<exists>a'. Unlock P p a = Returns (True, a')) \<longleftrightarrow>
             digest P p (config a) = ConfigKeyHash (ConfigFile (config a)))) \<and>
         (IsLocked (config a) \<and> digest P p (config a) = ConfigKeyHash (ConfigFile (config a)) \<longrightarrow>
            Unlock P p a = Returns (True,
              a\<lparr>config := (config a)\<lparr>key := argon2_Key P p (DeviceUUID (ConfigFile (config a)))\<rparr>,
                notifications := notifications a @ [''Vault Unlocked''],
                pincache := Some p\<rparr>)) \<and>
         (IsLocked (config a) \<and> digest P p (config a) \<noteq> ConfigKeyHash (ConfigFile (config a)) \<longrightarrow>
            Unlock P p a = Returns (False, a) \<and> IsLocked (config a)) \<and>
         (\<not> IsLocked (config a) \<longrightarrow> Unlock P p a = Returns (True, a))"
  using assms
  by (simp add: Unlock_def digest_def ConstantTimeCompare_def NewBufferFromBytes_def Let_def)

lemma wrong_pin_digest: "digest tiny ''0000'' lockedStore \<noteq> ConfigKeyHash (ConfigFile lockedStore)"
  by code_simp

lemma right_pin_digest: "digest tiny ''1234'' lockedStore = ConfigKeyHash (ConfigFile lockedStore)"
  by (simp add: lockedStore_def digest_def)

theorem Unlock_iff_digest_witness:
  "\<not> mu (config (agentOf lockedStore)) \<and> IsLocked (config (agentOf lockedStore)) \<and>
   digest tiny ''1234'' lockedStore = ConfigKeyHash (ConfigFile lockedStore) \<and>
   Unlock tiny ''1234'' (agentOf lockedStore) =
     Returns (True,
       (agentOf lockedStore)\<lparr>config := lockedStore\<lparr>key := argon2_Key tiny ''1234'' ''dev''\<rparr>,
         notifications := [''Vault Unlocked''], pincache := Some ''1234''\<rparr>) \<and>
   digest tiny ''0000'' lockedStore \<noteq> ConfigKeyHash (ConfigFile lockedStore) \<and>
   Unlock tiny ''0000'' (agentOf lockedStore) = Returns (False, agentOf lockedStore) \<and>
   \<not> IsLocked (config (agentOf openStore)) \<and>
   Unlock tiny ''0000'' (agentOf openStore) = Returns (True, agentOf openStore)"
proof -
  have free: "\<not> mu (config (agentOf lockedStore))" "\<not> mu (config (agentOf openStore))"
    by (simp_all add: agentOf_simps lockedStore_def openStore_def newStore_def DefaultConfig_def)
  have uuid: "DeviceUUID (ConfigFile lockedStore) = ''dev''"
    by (simp add: lockedStore_def newStore_def DefaultConfig_def)
  from Unlock_iff_digest [OF free(1), of tiny "''1234''"]
    Unlock_iff_digest [OF free(1), of tiny "''0000''"]
    Unlock_iff_digest [OF free(2), of tiny "''0000''"]
    free lockedStore_locked openStore_unlocked wrong_pin_digest right_pin_digest uuid
  show ?thesis
    by (simp add: agentOf_simps)
qed

subsection \<open>Changing the pin\<close>

lemma hex_EncodeToString_Nil: "hex_EncodeToString b = [] \<longleftrightarrow> b = []"
  by (cases b) (simp_all add: hex_EncodeToString_def)

lemma digest_nonempty:
  assumes "sum256_32 P"
  shows "digest P p c \<noteq> []"
proof -
  from assms have "length (sha3_Sum256 P (argon2_Key P p (DeviceUUID (ConfigFile c)))) = 32"
    by (simp add: sum256_32_def)
  then have "sha3_Sum256 P (argon2_Key P p (DeviceUUID (ConfigFile c))) \<noteq> []"
    by auto
  then show ?thesis
    by (simp add: digest_def hex_EncodeToString_Nil)
qed

lemma encryptString_unlocked:
  assumes "length (key c) = 32" and "key c \<noteq> replicate 32 (CHR 0x00)" and "aead_total P"
  shows "encryptString P r pt c = Inr (sealed P (key c) r (Inr pt) old)"
proof -
  from assms(1,3) have "aead_Encrypt P (key c) r pt \<noteq> None"
    unfolding aead_total_def by blast
  with assms(1,2) show ?thesis
    by (auto simp: encryptString_def IsLocked_def Bytes_def NewChaCha20Poly1305_def sealed_def)
qed

lemma decryptString_sealed:
  assumes "length (key c) = 32" and "key c \<noteq> replicate 32 (CHR 0x00)"
    and "aead_total P" and "aead_correct P" and "b64_correct P"
  shows "decryptString P (sealed P (key c) r (Inr pt) old) c = Inr pt"
proof -
  from assms(1,3) have "aead_Encrypt P (key c) r pt \<noteq> None"
    unfolding aead_total_def by blast
  then obtain ct where enc: "aead_Encrypt P (key c) r pt = Some ct"
    by blast
  with assms(1,4) have dec: "aead_Decrypt P (key c) ct = Some pt"
    unfolding aead_correct_def by blast
  from assms(5) have b64: "b64_DecodeString P (b64_EncodeToString P ct) = Some ct"
    by (simp add: b64_correct_def)
  from enc dec b64 assms(1,2) show ?thesis
    by (simp add: decryptString_def sealed_def IsLocked_def Bytes_def NewChaCha20Poly1305_def)
qed

lemma reencrypt_unlocked:
  assumes "length (key c) = 32" and "key c \<noteq> replicate 32 (CHR 0x00)" and "aead_total P"
    and "upd (\<lambda>x. x) (ConfigFile c) = ConfigFile c"
  shows "reencrypt P r d upd c = Inr (c\<lparr>ConfigFile := upd (sealed P (key c) r d) (ConfigFile c)\<rparr>)"
proof (cases d)
  case (Inl e)
  have "sealed P (key c) r (Inl e) = (\<lambda>x. x)"
    by (rule ext) (simp add: sealed_def)
  with Inl assms(4) show ?thesis
    by (simp add: reencrypt_def)
next
  case (Inr pt)
  have "sealed P (key c) r (Inr pt) = (\<lambda>_. sealed P (key c) r (Inr pt) [])"
    by (rule ext) (simp add: sealed_def)
  with Inr encryptString_unlocked [OF assms(1-3), of r pt "[]"] show ?thesis
    by (simp add: reencrypt_def)
qed

lemma decryptString_depends:
  assumes "key c = key c'" and "ConfigKeyHash (ConfigFile c) = ConfigKeyHash (ConfigFile c')"
  shows "decryptString P x c = decryptString P x c'"
  using assms
  by (simp add: decryptString_def IsLocked_def HasPin_def Bytes_def
      cong del: option.case_cong_weak sum.case_cong_weak)

lemma andThen_Inr: "andThen (Inr c) f = f c"
  by (simp add: andThen_def)

lemma name_length: "length ''/goldwarden.json'' = 16"
  by (simp add: eval_nat_numeral)

lemma writable_iff:
  "writable c \<longleftrightarrow>
     DoNotPersistConfig (RuntimeConfig (ConfigFile c)) \<or>
     16 \<le> length (ConfigDirectory (RuntimeConfig (ConfigFile c)))"
  unfolding writable_def name_length by (rule refl)

lemma WriteConfig_eq:
  "WriteConfig P a =
     (if DoNotPersistConfig (RuntimeConfig (ConfigFile (config a))) then Returns (None, a)
      else if mu (config a) then Blocks
      else if length (ConfigDirectory (RuntimeConfig (ConfigFile (config a)))) < 16 then Fatal
      else case persist P (ConfigFile (config a)) (disk a) of
        (err, d) \<Rightarrow> Returns (err, a\<lparr>disk := d\<rparr>))"
  unfolding WriteConfig_def name_length by (rule refl)

lemma WriteConfig_panics:
  assumes "\<not> DoNotPersistConfig (RuntimeConfig (ConfigFile (config a)))" and "\<not> mu (config a)"
    and "length (ConfigDirectory (RuntimeConfig (ConfigFile (config a)))) < 16"
  shows "WriteConfig P a = Fatal"
  using assms by (simp add: WriteConfig_eq)

lemma UpdatePin_rekeyed:
  assumes "\<not> mu (config a)" and "kdf_32 P" and "aead_total P"
    and nz: "argon2_Key P password (DeviceUUID (ConfigFile (config a))) \<noteq> replicate 32 (CHR 0x00)"
    and wr: "write \<longrightarrow> writable (config a)"
  shows "\<exists>a'. UpdatePin P r password write a = Returns a' \<and>
               config a' = rekeyed P r password (config a)"
proof -
  let ?c = "config a"
  let ?k = "argon2_Key P password (DeviceUUID (ConfigFile ?c))"
  have len: "length ?k = 32"
    using assms(2) by (simp add: kdf_32_def)
  have dig: "hex_EncodeToString (sha3_Sum256 P ?k) = digest P password ?c"
    by (simp add: digest_def)
  have dec: "\<And>x. decryptString P x (?c\<lparr>mu := True,
                 ConfigFile := (ConfigFile ?c)\<lparr>ConfigKeyHash := digest P password ?c\<rparr>\<rparr>)
               = decryptString P x (duringUpdate P password ?c)"
    by (rule decryptString_depends) (simp_all add: duringUpdate_def)
  show ?thesis
  proof (cases "write")
    case False
    with assms(1) len nz assms(3) show ?thesis
      by (simp add: UpdatePin_def rekeyed_def Let_def NewBufferFromBytes_def reencrypt_unlocked
          andThen_Inr dig dec)
  next
    case True
    with wr have "DoNotPersistConfig (RuntimeConfig (ConfigFile ?c)) \<or>
        \<not> length (ConfigDirectory (RuntimeConfig (ConfigFile ?c))) < 16"
      by (auto simp: writable_iff)
    with True assms(1) len nz assms(3) show ?thesis
      by (auto simp: UpdatePin_def rekeyed_def Let_def NewBufferFromBytes_def reencrypt_unlocked
          andThen_Inr dig dec WriteConfig_eq split: prod.splits option.splits)
  qed
qed

text \<open>
  With persistence on and a path shorter than 16 bytes, \<^verbatim>\<open>UpdatePin\<close> with \<^verbatim>\<open>write\<close> set dies
  in \<^verbatim>\<open>WriteConfig\<close>.
\<close>

lemma UpdatePin_panics:
  assumes "\<not> mu (config a)" and "kdf_32 P" and "aead_total P"
    and nz: "argon2_Key P password (DeviceUUID (ConfigFile (config a))) \<noteq> replicate 32 (CHR 0x00)"
    and "\<not> writable (config a)"
  shows "UpdatePin P r password True a = Fatal"
proof -
  let ?c = "config a"
  let ?k = "argon2_Key P password (DeviceUUID (ConfigFile ?c))"
  have len: "length ?k = 32"
    using assms(2) by (simp add: kdf_32_def)
  from assms(5) have "\<not> DoNotPersistConfig (RuntimeConfig (ConfigFile ?c))"
    and "length (ConfigDirectory (RuntimeConfig (ConfigFile ?c))) < 16"
    by (auto simp: writable_iff)
  with assms(1) len nz assms(3) show ?thesis
    by (simp add: UpdatePin_def Let_def NewBufferFromBytes_def reencrypt_unlocked
        andThen_Inr WriteConfig_eq)
qed

lemma rekeyed_simps:
  "key (rekeyed P r password c) = argon2_Key P password (DeviceUUID (ConfigFile c))"
  "mu (rekeyed P r password c) = False"
  "ConfigKeyHash (ConfigFile (rekeyed P r password c)) = digest P password c"
  "DeviceUUID (ConfigFile (rekeyed P r password c)) = DeviceUUID (ConfigFile c)"
  by (simp_all add: rekeyed_def Let_def)

lemma rekeyScenario_rekeyed:
  assumes "\<not> mu (config a)" and "kdf_32 P" and "sum256_32 P" and "aead_total P"
    and nz: "argon2_Key P password (DeviceUUID (ConfigFile (config a))) \<noteq> replicate 32 (CHR 0x00)"
    and wr: "write \<longrightarrow> writable (config a)"
  shows "\<exists>a'. rekeyScenario P r password write a = Returns (True, a') \<and>
               config a' = rekeyed P r password (config a)"
proof -
  let ?k = "argon2_Key P password (DeviceUUID (ConfigFile (config a)))"
  have len: "length ?k = 32"
    using assms(2) by (simp add: kdf_32_def)
  from UpdatePin_rekeyed [OF assms(1,2,4) nz wr]
  obtain a1 where a1: "UpdatePin P r password write a = Returns a1"
    and c1: "config a1 = rekeyed P r password (config a)"
    by blast
  have open1: "\<not> IsLocked (config a1)"
    using nz by (simp add: c1 IsLocked_def Bytes_def rekeyed_simps)
  define a2 where "a2 = a1\<lparr>config := (config a1)\<lparr>key := Wipe (key (config a1))\<rparr>,
                            notifications := notifications a1 @ [''Vault Locked'']\<rparr>"
  have lock: "Lock a1 = Returns a2"
    using open1 by (simp add: Lock_def a2_def c1 rekeyed_simps)
  have locked2: "IsLocked (config a2)"
    using len digest_nonempty [OF assms(3)]
    by (simp add: a2_def c1 IsLocked_def HasPin_def Bytes_def Wipe_def rekeyed_simps)
  have dig2: "digest P password (config a2) = ConfigKeyHash (ConfigFile (config a2))"
    by (simp add: a2_def c1 digest_def rekeyed_simps)
  have "Unlock P password a2 = Returns (True,
          a2\<lparr>config := (config a2)\<lparr>key := ?k\<rparr>,
             notifications := notifications a2 @ [''Vault Unlocked''],
             pincache := Some password\<rparr>)"
    using locked2 dig2
    by (simp add: Unlock_def Let_def ConstantTimeCompare_def NewBufferFromBytes_def digest_def)
       (simp add: a2_def c1 rekeyed_simps)
  moreover have "(config a2)\<lparr>key := ?k\<rparr> = rekeyed P r password (config a)"
    by (simp add: a2_def c1) (simp add: rekeyed_def Let_def)
  ultimately show ?thesis
    using a1 lock by (simp add: rekeyScenario_def)
qed

lemma carried_sealed:
  assumes "aead_total P" and "aead_correct P" and "b64_correct P"
    and "length (key c') = 32" and "key c' \<noteq> replicate 32 (CHR 0x00)"
    and "f (ConfigFile c') =
           sealed P (key c') ri (decryptString P (f (ConfigFile c)) (duringUpdate P password c))
             (f (ConfigFile c))"
  shows "carried P ri password c c' f"
proof (cases "decryptString P (f (ConfigFile c)) (duringUpdate P password c)")
  case (Inl e)
  with assms(6) show ?thesis
    by (simp add: carried_def sealed_def)
next
  case (Inr pt)
  with assms(6) have field: "f (ConfigFile c') = sealed P (key c') ri (Inr pt) (f (ConfigFile c))"
    by simp
  from encryptString_unlocked [OF assms(4,5,1)]
  have "encryptString P ri pt c' = Inr (sealed P (key c') ri (Inr pt) (f (ConfigFile c)))" .
  moreover from decryptString_sealed [OF assms(4,5,1,2,3)]
  have "decryptString P (sealed P (key c') ri (Inr pt) (f (ConfigFile c))) c' = Inr pt" .
  ultimately show ?thesis
    using Inr field by (simp add: carried_def)
qed

lemma carried_rekeyed:
  assumes "kdf_32 P" and "aead_total P" and "aead_correct P" and "b64_correct P"
    and nz: "argon2_Key P password (DeviceUUID (ConfigFile c)) \<noteq> replicate 32 (CHR 0x00)"
  shows "carried P (r 1) password c (rekeyed P r password c) EncryptedToken"
    and "carried P (r 2) password c (rekeyed P r password c) EncryptedUserSymmetricKey"
    and "carried P (r 3) password c (rekeyed P r password c) EncryptedMasterPasswordHash"
    and "carried P (r 4) password c (rekeyed P r password c) EncryptedMasterKey"
    and "carried P (r 5) password c (rekeyed P r password c) EncryptedClientID"
    and "carried P (r 6) password c (rekeyed P r password c) EncryptedClientSecret"
proof -
  have len: "length (key (rekeyed P r password c)) = 32"
    using assms(1) by (simp add: rekeyed_simps kdf_32_def)
  have nz': "key (rekeyed P r password c) \<noteq> replicate 32 (CHR 0x00)"
    using nz by (simp add: rekeyed_simps)
  note intro = carried_sealed [OF assms(2,3,4) len nz']
  show "carried P (r 1) password c (rekeyed P r password c) EncryptedToken"
    by (rule intro) (simp add: rekeyed_def Let_def)
  show "carried P (r 2) password c (rekeyed P r password c) EncryptedUserSymmetricKey"
    by (rule intro) (simp add: rekeyed_def Let_def)
  show "carried P (r 3) password c (rekeyed P r password c) EncryptedMasterPasswordHash"
    by (rule intro) (simp add: rekeyed_def Let_def)
  show "carried P (r 4) password c (rekeyed P r password c) EncryptedMasterKey"
    by (rule intro) (simp add: rekeyed_def Let_def)
  show "carried P (r 5) password c (rekeyed P r password c) EncryptedClientID"
    by (rule intro) (simp add: rekeyed_def Let_def)
  show "carried P (r 6) password c (rekeyed P r password c) EncryptedClientSecret"
    by (rule intro) (simp add: rekeyed_def Let_def)
qed

lemma decryptString_duringUpdate:
  assumes "key c \<noteq> replicate 32 (CHR 0x00)"
  shows "decryptString P x (duringUpdate P password c) = decryptString P x c"
  using assms
  by (simp add: decryptString_def duringUpdate_def IsLocked_def Bytes_def
      cong del: option.case_cong_weak sum.case_cong_weak)

lemma carried_rekeyedField:
  assumes "carried P ri password c c' f" and "key c \<noteq> replicate 32 (CHR 0x00)"
  shows "rekeyedField P ri c c' f"
  using assms by (simp add: carried_def rekeyedField_def decryptString_duringUpdate)

text \<open>
  C3, as the code has it, on a store that is unlocked with a key that is not all zero.
  With the mutex free, the key derived from the new pin not all zero, the libraries as
  assumed, and, when the store is to be written, a store that \<^verbatim>\<open>WriteConfig\<close> can write
  (persistence off, or a path of at least 16 bytes): \<^verbatim>\<open>UpdatePin\<close> returns with the new key
  and its digest in place. A field that decrypted under the old key is encrypted anew under
  the new key and decrypts to the same plaintext. A field that did not decrypt under the
  old key keeps the value it had: an empty field stays empty, and a field that held
  something else holds it still.
\<close>

theorem UpdatePin_carries_fields:
  assumes "\<not> mu (config a)" and "key (config a) \<noteq> replicate 32 (CHR 0x00)"
    and "kdf_32 P" and "aead_total P" and "aead_correct P" and "b64_correct P"
    and "argon2_Key P password (DeviceUUID (ConfigFile (config a))) \<noteq> replicate 32 (CHR 0x00)"
    and "write \<longrightarrow> writable (config a)"
  shows "\<exists>a'. UpdatePin P r password write a = Returns a' \<and>
           key (config a') = argon2_Key P password (DeviceUUID (ConfigFile (config a))) \<and>
           ConfigKeyHash (ConfigFile (config a')) = digest P password (config a) \<and>
           rekeyedField P (r 1) (config a) (config a') EncryptedToken \<and>
           rekeyedField P (r 2) (config a) (config a') EncryptedUserSymmetricKey \<and>
           rekeyedField P (r 3) (config a) (config a') EncryptedMasterPasswordHash \<and>
           rekeyedField P (r 4) (config a) (config a') EncryptedMasterKey \<and>
           rekeyedField P (r 5) (config a) (config a') EncryptedClientID \<and>
           rekeyedField P (r 6) (config a) (config a') EncryptedClientSecret"
proof -
  from UpdatePin_rekeyed [OF assms(1,3,4,7,8)]
  obtain a' where ret: "UpdatePin P r password write a = Returns a'"
    and conf: "config a' = rekeyed P r password (config a)"
    by blast
  note fields = carried_rekeyed [OF assms(3,4,5,6,7), of r, THEN carried_rekeyedField, OF assms(2)]
  from fields ret conf show ?thesis
    by (simp add: rekeyed_simps)
qed

text \<open>
  The example \<open>staleAgent\<close>: an unlocked store with its file, in which the client id decrypts
  to \<^verbatim>\<open>id\<close> and the token field does not decrypt.
\<close>

lemma staleAgent_facts:
  "\<not> mu (config staleAgent)"
  "key (config staleAgent) \<noteq> replicate 32 (CHR 0x00)"
  "argon2_Key tiny ''5678'' (DeviceUUID (ConfigFile (config staleAgent))) \<noteq> replicate 32 (CHR 0x00)"
  "writable (config staleAgent)"
  "decryptString tiny (EncryptedClientID (ConfigFile (config staleAgent))) (config staleAgent)
     = Inr ''id''"
  "decryptString tiny (EncryptedToken (ConfigFile (config staleAgent))) (config staleAgent)
     = Inl DecryptError"
  "EncryptedToken (ConfigFile (config staleAgent)) = ''c3RhbGU=''"
  by code_simp+

lemma staleAgent_run:
  "(case UpdatePin tiny (\<lambda>i. ''nonce'') ''5678'' True staleAgent of
      Returns a' \<Rightarrow>
        EncryptedClientID (ConfigFile (config a')) \<noteq>
          EncryptedClientID (ConfigFile (config staleAgent)) \<and>
        key (config a') \<noteq> key (config staleAgent) \<and>
        disk a' = Some (ConfigFile (config a'))
    | Blocks \<Rightarrow> False
    | Fatal \<Rightarrow> False)"
  by code_simp

theorem UpdatePin_carries_fields_witness:
  "\<not> mu (config staleAgent) \<and>
   key (config staleAgent) \<noteq> replicate 32 (CHR 0x00) \<and>
   argon2_Key tiny ''5678'' (DeviceUUID (ConfigFile (config staleAgent))) \<noteq>
     replicate 32 (CHR 0x00) \<and>
   writable (config staleAgent) \<and>
   decryptString tiny (EncryptedClientID (ConfigFile (config staleAgent))) (config staleAgent)
     = Inr ''id'' \<and>
   decryptString tiny (EncryptedToken (ConfigFile (config staleAgent))) (config staleAgent)
     = Inl DecryptError \<and>
   (\<exists>a'. UpdatePin tiny (\<lambda>i. ''nonce'') ''5678'' True staleAgent = Returns a' \<and>
         key (config a') = argon2_Key tiny ''5678'' (DeviceUUID (ConfigFile (config staleAgent))) \<and>
         key (config a') \<noteq> key (config staleAgent) \<and>
         EncryptedClientID (ConfigFile (config a')) \<noteq>
           EncryptedClientID (ConfigFile (config staleAgent)) \<and>
         encryptString tiny ''nonce'' ''id'' (config a') =
           Inr (EncryptedClientID (ConfigFile (config a'))) \<and>
         decryptString tiny (EncryptedClientID (ConfigFile (config a'))) (config a') = Inr ''id'' \<and>
         EncryptedToken (ConfigFile (config a')) = ''c3RhbGU='')"
proof -
  have wr: "True \<longrightarrow> writable (config staleAgent)"
    by (simp add: staleAgent_facts)
  from UpdatePin_carries_fields [OF staleAgent_facts(1,2) tiny_kdf_32 tiny_aead_total
      tiny_aead_correct tiny_b64_correct staleAgent_facts(3) wr, of "\<lambda>i. ''nonce''"]
  obtain a' where ret: "UpdatePin tiny (\<lambda>i. ''nonce'') ''5678'' True staleAgent = Returns a'"
    and k: "key (config a') = argon2_Key tiny ''5678'' (DeviceUUID (ConfigFile (config staleAgent)))"
    and tok: "rekeyedField tiny ''nonce'' (config staleAgent) (config a') EncryptedToken"
    and cid: "rekeyedField tiny ''nonce'' (config staleAgent) (config a') EncryptedClientID"
    by blast
  from tok staleAgent_facts(6,7) have tok': "EncryptedToken (ConfigFile (config a')) = ''c3RhbGU=''"
    by (simp add: rekeyedField_def)
  from cid staleAgent_facts(5)
  have cid': "encryptString tiny ''nonce'' ''id'' (config a') =
                Inr (EncryptedClientID (ConfigFile (config a')))"
    "decryptString tiny (EncryptedClientID (ConfigFile (config a'))) (config a') = Inr ''id''"
    by (simp_all add: rekeyedField_def)
  from staleAgent_run ret
  have changed: "EncryptedClientID (ConfigFile (config a')) \<noteq>
                   EncryptedClientID (ConfigFile (config staleAgent))"
    "key (config a') \<noteq> key (config staleAgent)"
    by simp_all
  from ret k tok' cid' changed staleAgent_facts show ?thesis
    by blast
qed

text \<open>
  Against C3 as the spec words it: the token field of \<open>staleAgent\<close> holds the base64 of
  \<^verbatim>\<open>stale\<close>, which does not decrypt, neither before nor during the change of pin. After
  \<^verbatim>\<open>UpdatePin\<close> the field is not empty: it holds that value as before.
\<close>

theorem UpdatePin_keeps_undecryptable_field:
  "decryptString tiny (EncryptedToken (ConfigFile (config staleAgent))) (config staleAgent)
     = Inl DecryptError \<and>
   decryptString tiny (EncryptedToken (ConfigFile (config staleAgent)))
     (duringUpdate tiny ''5678'' (config staleAgent)) = Inl DecryptError \<and>
   (case UpdatePin tiny (\<lambda>i. ''nonce'') ''5678'' True staleAgent of
      Returns a' \<Rightarrow>
        EncryptedToken (ConfigFile (config a')) = ''c3RhbGU='' \<and>
        EncryptedToken (ConfigFile (config a')) \<noteq> ''''
    | Blocks \<Rightarrow> False
    | Fatal \<Rightarrow> False) \<and>
   (case UpdatePin tiny (\<lambda>i. ''nonce'') ''5678'' False staleAgent of
      Returns a' \<Rightarrow>
        EncryptedToken (ConfigFile (config a')) = ''c3RhbGU='' \<and>
        EncryptedToken (ConfigFile (config a')) \<noteq> ''''
    | Blocks \<Rightarrow> False
    | Fatal \<Rightarrow> False)"
  by code_simp

lemma carried_restores:
  assumes "carried P ri password c c' f" and "key c \<noteq> replicate 32 (CHR 0x00)"
    and "decryptString P (f (ConfigFile c)) c = Inr pt"
  shows "decryptString P (f (ConfigFile c')) c' = Inr pt"
  using assms by (simp add: carried_def decryptString_duringUpdate)

text \<open>
  On a store that has a key which is not all zero, the scenario of C6 holds: after
  \<^verbatim>\<open>UpdatePin\<close>, \<^verbatim>\<open>Lock\<close> and \<^verbatim>\<open>Unlock\<close> with the new pin, every field that decrypted before
  decrypts to the same plaintext.
\<close>

lemma rekeyScenario_restores:
  assumes "\<not> mu (config a)" and "key (config a) \<noteq> replicate 32 (CHR 0x00)"
    and "kdf_32 P" and "sum256_32 P" and "aead_total P" and "aead_correct P" and "b64_correct P"
    and nz: "argon2_Key P password (DeviceUUID (ConfigFile (config a))) \<noteq> replicate 32 (CHR 0x00)"
    and wr: "write \<longrightarrow> writable (config a)"
  shows "\<exists>a'. rekeyScenario P r password write a = Returns (True, a') \<and>
           \<not> IsLocked (config a') \<and>
           (\<forall>f \<in> {EncryptedToken, EncryptedUserSymmetricKey, EncryptedMasterPasswordHash,
                    EncryptedMasterKey, EncryptedClientID, EncryptedClientSecret}.
              \<forall>pt. decryptString P (f (ConfigFile (config a))) (config a) = Inr pt \<longrightarrow>
                   decryptString P (f (ConfigFile (config a'))) (config a') = Inr pt)"
proof -
  from rekeyScenario_rekeyed [OF assms(1,3,4,5) nz wr]
  obtain a' where ret: "rekeyScenario P r password write a = Returns (True, a')"
    and conf: "config a' = rekeyed P r password (config a)"
    by blast
  have "\<not> IsLocked (config a')"
    using nz by (simp add: conf IsLocked_def Bytes_def rekeyed_simps)
  moreover have "\<forall>f \<in> {EncryptedToken, EncryptedUserSymmetricKey, EncryptedMasterPasswordHash,
                    EncryptedMasterKey, EncryptedClientID, EncryptedClientSecret}.
              \<forall>pt. decryptString P (f (ConfigFile (config a))) (config a) = Inr pt \<longrightarrow>
                   decryptString P (f (ConfigFile (config a'))) (config a') = Inr pt"
    using carried_rekeyed [OF assms(3,5,6,7) nz, of r] assms(2)
    by (auto simp: conf dest: carried_restores)
  ultimately show ?thesis
    using ret by blast
qed

text \<open>
  C6 at a store without a pin. \<open>firstRun\<close> is the store that \<^verbatim>\<open>DefaultConfig\<close> makes, given the
  path of its file, after \<^verbatim>\<open>SetClientID("id")\<close> has returned without error: it is not locked,
  \<^verbatim>\<open>WriteConfig\<close> can write it, and \<^verbatim>\<open>GetClientID\<close> returns \<open>id\<close>. After \<^verbatim>\<open>UpdatePin\<close> with
  \<^verbatim>\<open>write\<close> set, \<^verbatim>\<open>Lock\<close> and a successful \<^verbatim>\<open>Unlock\<close> with the new pin, \<^verbatim>\<open>GetClientID\<close> fails:
  \<^verbatim>\<open>UpdatePin\<close> stores the new hash before it decrypts (line 308), the key being all zero
  the store now counts as locked, no field decrypts, and the old ciphertext stays under
  the new key. The same happens without writing, and on \<open>firstRunNoFile\<close>, where
  persistence is off.
\<close>

theorem UpdatePin_without_pin_loses_field:
  "SetClientID tiny ''nonce'' ''id'' (agentOf (withPath newStore)) = Returns (None, firstRun) \<and>
   \<not> mu (config firstRun) \<and> writable (config firstRun) \<and>
   \<not> IsLocked (config firstRun) \<and>
   GetClientID tiny (config firstRun) = Inr ''id'' \<and>
   (case rekeyScenario tiny (\<lambda>i. ''nonce'') ''1234'' True firstRun of
      Returns (ok, a') \<Rightarrow>
        ok \<and> \<not> IsLocked (config a') \<and> GetClientID tiny (config a') = Inl DecryptError
    | Blocks \<Rightarrow> False
    | Fatal \<Rightarrow> False) \<and>
   (case rekeyScenario tiny (\<lambda>i. ''nonce'') ''1234'' False firstRun of
      Returns (ok, a') \<Rightarrow>
        ok \<and> \<not> IsLocked (config a') \<and> GetClientID tiny (config a') = Inl DecryptError
    | Blocks \<Rightarrow> False
    | Fatal \<Rightarrow> False) \<and>
   SetClientID tiny ''nonce'' ''id'' (agentOf (withoutFile newStore)) = Returns (None, firstRunNoFile) \<and>
   GetClientID tiny (config firstRunNoFile) = Inr ''id'' \<and>
   (case rekeyScenario tiny (\<lambda>i. ''nonce'') ''1234'' True firstRunNoFile of
      Returns (ok, a') \<Rightarrow>
        ok \<and> \<not> IsLocked (config a') \<and> GetClientID tiny (config a') = Inl DecryptError
    | Blocks \<Rightarrow> False
    | Fatal \<Rightarrow> False)"
  by code_simp

section \<open>Properties of the synchronisation\<close>

subsection \<open>Full synchronisation\<close>

lemma addCipher_items:
  "items (addCipher v cipher) =
     (case storedAs cipher of None \<Rightarrow> items v | Some i \<Rightarrow> (items v)(ID cipher \<mapsto> i))"
  by (cases "Type cipher")
    (simp_all add: addCipher_def storedAs_def AddOrUpdateLogin_def AddOrUpdateSecureNote_def
      AddOrUpdateSSHKey_def)

lemma addCipher_frame: "addCipher v cipher = v\<lparr>items := items (addCipher v cipher)\<rparr>"
  by (cases "Type cipher")
    (simp_all add: addCipher_def AddOrUpdateLogin_def AddOrUpdateSecureNote_def
      AddOrUpdateSSHKey_def)

lemma snapshotItems_Nil: "snapshotItems [] uuid = None"
  by (simp add: snapshotItems_def)

lemma snapshotItems_snoc:
  "snapshotItems (cs @ [cipher]) uuid =
     (if ID cipher = uuid \<and> storedAs cipher \<noteq> None then storedAs cipher
      else snapshotItems cs uuid)"
  by (auto simp: snapshotItems_def)

lemma foldl_addCipher_items:
  "items (foldl addCipher v cs) uuid =
     (case snapshotItems cs uuid of None \<Rightarrow> items v uuid | Some i \<Rightarrow> Some i)"
proof (induction cs rule: rev_induct)
  case Nil
  then show ?case by (simp add: snapshotItems_Nil)
next
  case (snoc cipher cs)
  then show ?case
    by (auto simp: snapshotItems_snoc addCipher_items split: option.splits)
qed

lemma foldl_addCipher_frame: "foldl addCipher v cs = v\<lparr>items := items (foldl addCipher v cs)\<rparr>"
proof (induction cs rule: rev_induct)
  case Nil
  then show ?case by simp
next
  case (snoc cipher cs)
  have "foldl addCipher v (cs @ [cipher]) = addCipher (foldl addCipher v cs) cipher"
    by simp
  also have "\<dots> = (foldl addCipher v cs)\<lparr>items := items (addCipher (foldl addCipher v cs) cipher)\<rparr>"
    by (rule addCipher_frame)
  also have "\<dots> = v\<lparr>items := items (addCipher (foldl addCipher v cs) cipher)\<rparr>"
    by (subst snoc.IH) simp
  finally show ?case by simp
qed

text \<open>The vault that the last three statements of \<^verbatim>\<open>DoFullSync\<close> make of a vault.\<close>

lemma rebuild_eq:
  "foldl addCipher (SetLastSynced now (Clear v)) cs =
     v\<lparr>items := snapshotItems cs, lastSynced := now\<rparr>"
proof -
  have "items (foldl addCipher (SetLastSynced now (Clear v)) cs) = snapshotItems cs"
    by (rule ext) (simp add: foldl_addCipher_items SetLastSynced_def Clear_def split: option.splits)
  then show ?thesis
    by (subst foldl_addCipher_frame) (simp add: SetLastSynced_def Clear_def)
qed

lemma DoFullSync_no_key:
  assumes "Sync R ctx c = Inr sync"
  shows "DoFullSync R now ctx v c None allowCache =
           (None, v\<lparr>items := snapshotItems (Ciphers sync), lastSynced := now\<rparr>)"
  using assms by (simp add: DoFullSync_def Let_def rebuild_eq)

lemma DoFullSync_cases:
  assumes "Sync R ctx c = Inr sync"
  shows "(\<exists>keyring. DoFullSync R now ctx v c k allowCache =
            (None, v\<lparr>Keyring := keyring, items := snapshotItems (Ciphers sync), lastSynced := now\<rparr>)) \<or>
         (\<exists>e keyring. DoFullSync R now ctx v c k allowCache = (Some e, v\<lparr>Keyring := keyring\<rparr>))"
proof (cases k)
  case None
  have "v\<lparr>Keyring := Keyring v, items := snapshotItems (Ciphers sync), lastSynced := now\<rparr>
          = v\<lparr>items := snapshotItems (Ciphers sync), lastSynced := now\<rparr>"
    by simp
  with None DoFullSync_no_key [OF assms, of now v allowCache] show ?thesis
    by metis
next
  case (Some u)
  obtain e keyring where init:
    "InitKeyringFromUserSymmetricKey R (Keyring v) u (PrivateKey (Profile sync))
       (foldl (\<lambda>m org. m(OrgId org \<mapsto> OrgKey org)) Map.empty (Organizations (Profile sync)))
     = (e, keyring)"
    by (cases "InitKeyringFromUserSymmetricKey R (Keyring v) u (PrivateKey (Profile sync))
       (foldl (\<lambda>m org. m(OrgId org \<mapsto> OrgKey org)) Map.empty (Organizations (Profile sync)))")
  show ?thesis
  proof (cases e)
    case None
    with Some init assms
    have "DoFullSync R now ctx v c k allowCache =
            (None, v\<lparr>Keyring := keyring, items := snapshotItems (Ciphers sync), lastSynced := now\<rparr>)"
      by (simp add: DoFullSync_def Let_def rebuild_eq)
    then show ?thesis
      by blast
  next
    case (Some err)
    with \<open>k = Some u\<close> init assms
    have "DoFullSync R now ctx v c k allowCache = (Some err, v\<lparr>Keyring := keyring\<rparr>)"
      by (simp add: DoFullSync_def Let_def)
    then show ?thesis
      by blast
  qed
qed

text \<open>
  C9. Let the fetch return the snapshot \<open>sync\<close>. Without a user key to initialise the
  keyring, \<^verbatim>\<open>DoFullSync\<close> succeeds. Whenever it succeeds, the vault holds the items of the
  snapshot and nothing else: what it held before is gone, each cipher of type login, note
  or SSH key is stored under its id by the operation of its type, a later cipher
  overwriting an earlier one with the same id (a cipher of another type is not stored);
  and the last-synced time is the time of the call. Running it again on the result changes
  nothing when the time is the same and no key is passed, and in every case leaves the same
  items.
\<close>

theorem DoFullSync_rebuilds_vault:
  assumes "Sync R ctx c = Inr sync"
  shows "fst (DoFullSync R now ctx vault c None allowCache) = None \<and>
         (\<forall>k vault1. DoFullSync R now ctx vault c k allowCache = (None, vault1) \<longrightarrow>
            items vault1 = snapshotItems (Ciphers sync) \<and>
            lastSynced vault1 = now \<and>
            DoFullSync R now ctx vault1 c None allowCache = (None, vault1) \<and>
            (\<forall>now2 k2 allowCache2.
               items (snd (DoFullSync R now2 ctx vault1 c k2 allowCache2)) = items vault1))"
proof (intro conjI allI impI)
  show "fst (DoFullSync R now ctx vault c None allowCache) = None"
    by (simp add: DoFullSync_no_key [OF assms])
next
  fix k vault1
  assume run: "DoFullSync R now ctx vault c k allowCache = (None, vault1)"
  with DoFullSync_cases [OF assms, of now vault k allowCache]
  obtain keyring where v1:
    "vault1 = vault\<lparr>Keyring := keyring, items := snapshotItems (Ciphers sync), lastSynced := now\<rparr>"
    by auto
  show "items vault1 = snapshotItems (Ciphers sync)"
    by (simp add: v1)
  show "lastSynced vault1 = now"
    by (simp add: v1)
  show "DoFullSync R now ctx vault1 c None allowCache = (None, vault1)"
    by (simp add: DoFullSync_no_key [OF assms] v1)
  fix now2 k2 allowCache2
  from DoFullSync_cases [OF assms, of now2 vault1 k2 allowCache2]
  show "items (snd (DoFullSync R now2 ctx vault1 c k2 allowCache2)) = items vault1"
    by (auto simp: v1)
qed

lemma syncService_Sync: "Sync syncService ''tok'' loggedIn = Inr snapshot"
  by code_simp

lemma snapshot_items:
  "snapshotItems (Ciphers snapshot) ''abc'' =
     Some (Login \<lparr>ID = ''abc'', Type = CipherLogin, DeletedDate = 0, Data = ''second''\<rparr>)"
  "snapshotItems (Ciphers snapshot) ''n1'' =
     Some (SecureNote \<lparr>ID = ''n1'', Type = CipherNote, DeletedDate = 0, Data = ''note''\<rparr>)"
  "snapshotItems (Ciphers snapshot) ''s1'' =
     Some (SSHKey \<lparr>ID = ''s1'', Type = CipherSSHKey, DeletedDate = 0, Data = ''ssh''\<rparr>)"
  "snapshotItems (Ciphers snapshot) ''o1'' = None"
  "snapshotItems (Ciphers snapshot) ''xyz'' = None"
  by code_simp+

theorem DoFullSync_rebuilds_vault_witness:
  "Sync syncService ''tok'' loggedIn = Inr snapshot \<and>
   fst (DoFullSync syncService 1700000100 ''tok'' someVault loggedIn None False) = None \<and>
   items (snd (DoFullSync syncService 1700000100 ''tok'' someVault loggedIn None False)) ''abc'' =
     Some (Login \<lparr>ID = ''abc'', Type = CipherLogin, DeletedDate = 0, Data = ''second''\<rparr>) \<and>
   items (snd (DoFullSync syncService 1700000100 ''tok'' someVault loggedIn None False)) ''s1'' =
     Some (SSHKey \<lparr>ID = ''s1'', Type = CipherSSHKey, DeletedDate = 0, Data = ''ssh''\<rparr>) \<and>
   items (snd (DoFullSync syncService 1700000100 ''tok'' someVault loggedIn None False)) ''xyz'' = None \<and>
   lastSynced (snd (DoFullSync syncService 1700000100 ''tok'' someVault loggedIn None False)) =
     1700000100 \<and>
   DoFullSync syncService 1700000100 ''tok''
     (snd (DoFullSync syncService 1700000100 ''tok'' someVault loggedIn None False)) loggedIn None False
     = DoFullSync syncService 1700000100 ''tok'' someVault loggedIn None False"
proof -
  let ?run = "DoFullSync syncService 1700000100 ''tok'' someVault loggedIn None False"
  note inst = DoFullSync_rebuilds_vault [OF syncService_Sync, of 1700000100 someVault False]
  from inst have ok: "fst ?run = None"
    by blast
  then have run: "?run = (None, snd ?run)"
    by (simp add: prod_eq_iff)
  from inst run have "items (snd ?run) = snapshotItems (Ciphers snapshot)"
    and "lastSynced (snd ?run) = 1700000100"
    and "DoFullSync syncService 1700000100 ''tok'' (snd ?run) loggedIn None False = (None, snd ?run)"
    by blast+
  with ok run syncService_Sync snapshot_items show ?thesis
    by simp
qed

subsection \<open>Events for a single item\<close>

lemma handleMessage_parsed:
  assumes "\<not> length message < 5"
    and "websocketMessageType dec message = Parsed t cipherid True"
    and "GetToken P cfg = Inr token"
    and "GetCipher R (AccessToken token) cipherid = Some cipher"
  shows "sint t = SyncCipherCreate \<Longrightarrow>
           handleMessage P R dec now cfg message vault =
             Continue (SetLastSynced now
               (if Type cipher = CipherNote then AddOrUpdateSecureNote cipher vault
                else AddOrUpdateLogin cipher vault))"
    and "sint t = SyncCipherUpdate \<Longrightarrow>
           handleMessage P R dec now cfg message vault =
             (if DeletedDate cipher \<noteq> 0 then Continue (DeleteCipher cipherid vault)
              else Continue (SetLastSynced now
                (if Type cipher = CipherNote then AddOrUpdateSecureNote cipher vault
                 else AddOrUpdateLogin cipher vault)))"
  using assms
  by (simp_all add: handleMessage_def Let_def SyncCipherCreate_def SyncCipherUpdate_def
      SyncCiphers_def SyncVault_def SyncCipherDelete_def)

text \<open>
  An update-event for an item that the fetch returns with a deleted-timestamp removes the
  item. A create-event for such an item does not: it stores what was fetched, as a secure
  note or as a login, whatever the deleted-timestamp is.
\<close>

lemma update_event_deletes_trashed_item:
  assumes "\<not> length message < 5"
    and "websocketMessageType dec message = Parsed t cipherid True"
    and "sint t = SyncCipherUpdate"
    and "GetToken P cfg = Inr token"
    and "GetCipher R (AccessToken token) cipherid = Some cipher"
    and "DeletedDate cipher \<noteq> 0"
  shows "\<exists>v. handleMessage P R dec now cfg message vault = Continue v \<and>
             items v = (items vault)(cipherid := None)"
  using handleMessage_parsed(2) [OF assms(1,2,4,5,3)] assms(6)
  by (simp add: DeleteCipher_def)

lemma create_event_stores_trashed_item:
  assumes "\<not> length message < 5"
    and "websocketMessageType dec message = Parsed t cipherid True"
    and "sint t = SyncCipherCreate"
    and "GetToken P cfg = Inr token"
    and "GetCipher R (AccessToken token) cipherid = Some cipher"
  shows "\<exists>v. handleMessage P R dec now cfg message vault = Continue v \<and>
             items v (ID cipher) =
               Some (if Type cipher = CipherNote then SecureNote cipher else Login cipher)"
  using handleMessage_parsed(1) [OF assms(1,2,4,5,3)]
  by (simp add: SetLastSynced_def AddOrUpdateSecureNote_def AddOrUpdateLogin_def)

text \<open>
  C2 at a create-event. The frame \<open>eventFrame 1\<close> is a create-event for the item \<^verbatim>\<open>abc\<close>; the
  store holds the token, and the fetch returns \<open>trashed\<close>, whose deleted-timestamp is not
  zero. The vault held a login \<^verbatim>\<open>abc\<close>; after the event it holds the trashed item under
  \<^verbatim>\<open>abc\<close>, where a delete would have left nothing. The update-event \<open>eventFrame 0\<close> for the
  same item does delete it.
\<close>

theorem create_event_upserts_trashed_item:
  "websocketMessageType fixDecodeSlice (eventFrame 1) = Parsed 1 ''abc'' True \<and>
   GetToken tiny loggedIn =
     Inr \<lparr>AccessToken = ''tok'', ExpiresIn = 0, TokenType = '''', RefreshToken = '''', Key = ''''\<rparr> \<and>
   GetCipher service ''tok'' ''abc'' = Some trashed \<and>
   DeletedDate trashed \<noteq> 0 \<and>
   (case handleMessage tiny service fixDecodeSlice 1700000100 loggedIn (eventFrame 1) someVault of
      Continue v \<Rightarrow> items v ''abc'' = Some (Login trashed) \<and> lastSynced v = 1700000100
    | Return v \<Rightarrow> False
    | Exit \<Rightarrow> False
    | Crash \<Rightarrow> False) \<and>
   (case handleMessage tiny service fixDecodeSlice 1700000100 loggedIn (eventFrame 0) someVault of
      Continue v \<Rightarrow> items v ''abc'' = None
    | Return v \<Rightarrow> False
    | Exit \<Rightarrow> False
    | Crash \<Rightarrow> False)"
  by code_simp

subsection \<open>Frames that do not decode\<close>

lemma short_frame_is_skipped:
  assumes "length message < 5"
  shows "handleMessage P R dec now cfg message vault = Continue vault"
  using assms by (simp add: handleMessage_def)

lemma failed_decode_is_skipped:
  assumes "websocketMessageType dec message = Parsed t cipherid False"
  shows "handleMessage P R dec now cfg message vault = Continue vault"
  using assms by (simp add: handleMessage_def)

text \<open>
  The deviations that the spec names are decode failures: the decoder fails or gives nil,
  fewer than five elements, an element 4 that is not an array or is empty, a first element
  of it that is not a map, no \<^verbatim>\<open>Type\<close>, a \<^verbatim>\<open>Type\<close> that is not an \<^verbatim>\<open>int8\<close>, a payload map
  without \<^verbatim>\<open>Id\<close>.
\<close>

lemma named_deviations_fail:
  "fst (dec m) = None \<or> snd (dec m) \<noteq> None \<Longrightarrow>
     parseMessageTypeFromMessagePack dec m = Parsed 0 '''' False"
  "dec m = (Some v, None) \<Longrightarrow> length v < 5 \<Longrightarrow>
     parseMessageTypeFromMessagePack dec m = Parsed 0 '''' False"
  "dec m = (Some v, None) \<Longrightarrow> 5 \<le> length v \<Longrightarrow> \<forall>v4. v ! 4 \<noteq> GoSlice v4 \<Longrightarrow>
     parseMessageTypeFromMessagePack dec m = Parsed 0 '''' False"
  "dec m = (Some v, None) \<Longrightarrow> 5 \<le> length v \<Longrightarrow> v ! 4 = GoSlice [] \<Longrightarrow>
     parseMessageTypeFromMessagePack dec m = Parsed 0 '''' False"
  "dec m = (Some v, None) \<Longrightarrow> 5 \<le> length v \<Longrightarrow> v ! 4 = GoSlice (x # xs) \<Longrightarrow>
     \<forall>value1. x \<noteq> GoMap value1 \<Longrightarrow>
     parseMessageTypeFromMessagePack dec m = Parsed 0 '''' False"
  "dec m = (Some v, None) \<Longrightarrow> 5 \<le> length v \<Longrightarrow> v ! 4 = GoSlice (GoMap value1 # xs) \<Longrightarrow>
     map_of value1 ''Type'' = None \<Longrightarrow>
     parseMessageTypeFromMessagePack dec m = Parsed 0 '''' False"
  "dec m = (Some v, None) \<Longrightarrow> 5 \<le> length v \<Longrightarrow> v ! 4 = GoSlice (GoMap value1 # xs) \<Longrightarrow>
     map_of value1 ''Type'' = Some ty \<Longrightarrow> \<forall>t. ty \<noteq> GoInt8 t \<Longrightarrow>
     parseMessageTypeFromMessagePack dec m = Parsed 0 '''' False"
  "dec m = (Some v, None) \<Longrightarrow> 5 \<le> length v \<Longrightarrow> v ! 4 = GoSlice (GoMap value1 # xs) \<Longrightarrow>
     map_of value1 ''Type'' = Some (GoInt8 t) \<Longrightarrow> map_of value1 ''Payload'' = Some (GoMap payload) \<Longrightarrow>
     map_of payload ''Id'' = None \<Longrightarrow>
     parseMessageTypeFromMessagePack dec m = Parsed 0 '''' False"
  by (auto simp: parseMessageTypeFromMessagePack_def
      split: prod.splits option.splits go_value.splits)

text \<open>
  The decode function panics in one case only: the first element of element 4 is a map
  with a \<^verbatim>\<open>Type\<close> that is an \<^verbatim>\<open>int8\<close> and a \<^verbatim>\<open>Payload\<close> that is a map in which \<^verbatim>\<open>Id\<close> is
  present and not a string (line 288).
\<close>

lemma parse_Panic_iff:
  "parseMessageTypeFromMessagePack dec m = Panic \<longleftrightarrow>
     (\<exists>v v4 value1 t payload x.
        dec m = (Some v, None) \<and> 5 \<le> length v \<and> v ! 4 = GoSlice v4 \<and> v4 \<noteq> [] \<and>
        v4 ! 0 = GoMap value1 \<and> map_of value1 ''Type'' = Some (GoInt8 t) \<and>
        map_of value1 ''Payload'' = Some (GoMap payload) \<and> map_of payload ''Id'' = Some x \<and>
        (\<forall>s. x \<noteq> GoString s))"
  by (auto simp: parseMessageTypeFromMessagePack_def
      split: prod.splits option.splits go_value.splits)

text \<open>
  C1 at a frame whose \<^verbatim>\<open>Id\<close> is not a string. \<open>badIdFrame\<close> has 41 bytes and its payload
  decodes to an array of five whose element 4 holds the map with \<^verbatim>\<open>Type\<close> 1 and the payload
  map with \<^verbatim>\<open>Id\<close> 5. The decode function does not return a failure on it: the type assertion
  at line 288 panics. The round of the reader's loop ends the process, and a frame that
  follows is never read.
\<close>

theorem frame_with_bad_id_crashes_reader:
  "length badIdFrame = 41 \<and>
   fixDecodeSlice (drop (lenBufferLen 0 badIdFrame) badIdFrame) =
     (Some [GoInt8 1, GoMap [], GoNil, GoString ''ReceiveMessage'',
            GoSlice [GoMap [(''Type'', GoInt8 1), (''Payload'', GoMap [(''Id'', GoInt8 5)])]]],
      None) \<and>
   websocketMessageType fixDecodeSlice badIdFrame = Panic \<and>
   (case handleMessage tiny service fixDecodeSlice 1700000100 loggedIn badIdFrame someVault of
      Continue v \<Rightarrow> False
    | Return v \<Rightarrow> False
    | Exit \<Rightarrow> False
    | Crash \<Rightarrow> True) \<and>
   (case reader tiny service fixDecodeSlice loggedIn
           [(1700000100, Some badIdFrame), (1700000101, Some (eventFrame 9))] someVault of
      Continue v \<Rightarrow> False
    | Return v \<Rightarrow> False
    | Exit \<Rightarrow> False
    | Crash \<Rightarrow> True)"
  by code_simp

end
